theory Spec2Isabelle
  imports Complex_Main
begin

section \<open>Python values and built-ins used by the mirror script\<close>

text \<open>
  The script \<^verbatim>\<open>mirror_spot_twap_orders.py\<close> walks over values decoded by
  \<^verbatim>\<open>json.loads\<close> with \<^verbatim>\<open>dict.get\<close>, truth tests and string methods.
  Decoded values are modelled by the datatype \<open>json\<close>. A string is a list of 8-bit
  characters read as code points below 256; an object is the list of its items, with distinct
  keys, in order. JSON numbers with a fraction or an exponent do not occur in the frames the
  script reads (the venue sends prices and sizes as text) and are left out of the datatype.

  Every Python exception is a value of \<open>exn\<close> (\<open>ExternalError\<close> stands for any exception
  of the venue's client library); a computation that may raise returns \<open>exn + 'a\<close> with
  \<open>Inl\<close> for the raise.
\<close>

datatype json =
    JNull
  | JBool bool
  | JInt int
  | JStr string
  | JArr "json list"
  | JObj "(string \<times> json) list"

datatype exn =
    AttributeError
  | TypeError
  | ValueError
  | KeyError
  | IndexError
  | ZeroDivisionError
  | OverflowError
  | JSONDecodeError
  | ExternalError

definition bind_exn :: "exn + 'a \<Rightarrow> ('a \<Rightarrow> exn + 'b) \<Rightarrow> exn + 'b" where
  "bind_exn m f = (case m of Inl e \<Rightarrow> Inl e | Inr x \<Rightarrow> f x)"

text \<open>\<^verbatim>\<open>bool(x)\<close>: the truth value Python gives a decoded value.\<close>

fun py_truthy :: "json \<Rightarrow> bool" where
  "py_truthy JNull = False"
| "py_truthy (JBool b) = b"
| "py_truthy (JInt i) = (i \<noteq> 0)"
| "py_truthy (JStr s) = (s \<noteq> [])"
| "py_truthy (JArr xs) = (xs \<noteq> [])"
| "py_truthy (JObj kvs) = (kvs \<noteq> [])"

text \<open>\<^verbatim>\<open>x.get(key, default)\<close>: only a dict has the method.\<close>

fun py_get :: "json \<Rightarrow> string \<Rightarrow> json \<Rightarrow> exn + json" where
  "py_get (JObj kvs) k d = Inr (case map_of kvs k of None \<Rightarrow> d | Some v \<Rightarrow> v)"
| "py_get _ k d = Inl AttributeError"

text \<open>\<^verbatim>\<open>x[key]\<close> with a string key: KeyError on a dict without the key, TypeError on
  a value that is not subscriptable by a string.\<close>

fun py_item :: "json \<Rightarrow> string \<Rightarrow> exn + json" where
  "py_item (JObj kvs) k = (case map_of kvs k of None \<Rightarrow> Inl KeyError | Some v \<Rightarrow> Inr v)"
| "py_item _ k = Inl TypeError"

text \<open>\<^verbatim>\<open>for x in v\<close>: a list yields its elements, a dict its keys, a string its
  characters; anything else is not iterable.\<close>

fun py_iter :: "json \<Rightarrow> exn + json list" where
  "py_iter (JArr xs) = Inr xs"
| "py_iter (JObj kvs) = Inr (map (\<lambda>kv. JStr (fst kv)) kvs)"
| "py_iter (JStr s) = Inr (map (\<lambda>c. JStr [c]) s)"
| "py_iter _ = Inl TypeError"

text \<open>\<^verbatim>\<open>s.startswith(p)\<close> and \<^verbatim>\<open>c in s\<close> for a one-character \<open>c\<close>.\<close>

definition startswith :: "string \<Rightarrow> string \<Rightarrow> bool" where
  "startswith s p = (take (length p) s = p)"

definition contains_char :: "char \<Rightarrow> string \<Rightarrow> bool" where
  "contains_char c s = (c \<in> set s)"

text \<open>\<^verbatim>\<open>"running" in x\<close>: key membership on a dict, element membership on a list,
  substring search on a string, TypeError otherwise.\<close>

fun is_substring :: "string \<Rightarrow> string \<Rightarrow> bool" where
  "is_substring p [] = (p = [])"
| "is_substring p (c # cs) = (take (length p) (c # cs) = p \<or> is_substring p cs)"

fun py_in :: "string \<Rightarrow> json \<Rightarrow> exn + bool" where
  "py_in k (JObj kvs) = Inr (map_of kvs k \<noteq> None)"
| "py_in k (JArr xs) = Inr (JStr k \<in> set xs)"
| "py_in k (JStr s) = Inr (is_substring k s)"
| "py_in k _ = Inl TypeError"

text \<open>\<^verbatim>\<open>xs[i]\<close> on a list: a negative index counts from the end.\<close>

definition py_nth :: "'a list \<Rightarrow> int \<Rightarrow> exn + 'a" where
  "py_nth xs i =
     (if 0 \<le> i \<and> i < int (length xs) then Inr (xs ! nat i)
      else if i < 0 \<and> - int (length xs) \<le> i then Inr (xs ! nat (int (length xs) + i))
      else Inl IndexError)"

subsection \<open>\<^verbatim>\<open>int(text)\<close> and \<^verbatim>\<open>str(number)\<close>\<close>

text \<open>
  \<^verbatim>\<open>int(s)\<close> strips white space at both ends (tab to carriage return, the space, and
  of the code points from 128 to 255 the next-line and the no-break space), takes an optional
  sign and then decimal digits, where single underscores may stand between two digits;
  anything else raises ValueError. (The interpreter's limit on the number of digits of one
  conversion, 4300 by default in recent versions, is not modelled.)
\<close>

definition py_isspace :: "char \<Rightarrow> bool" where
  "py_isspace c =
     (let n = (of_char c :: int)
      in (9 \<le> n \<and> n \<le> 13) \<or> n = 32 \<or> n = 133 \<or> n = 160)"

definition py_strip :: "string \<Rightarrow> string" where
  "py_strip s = rev (dropWhile py_isspace (rev (dropWhile py_isspace s)))"

definition is_digit :: "char \<Rightarrow> bool" where
  "is_digit c = (let n = (of_char c :: int) in 48 \<le> n \<and> n \<le> 57)"

definition digit_val :: "char \<Rightarrow> int" where
  "digit_val c = (of_char c :: int) - 48"

text \<open>\<open>int_digits acc d cs\<close>: \<open>acc\<close> is the value read so far, \<open>d\<close> says that the
  character before \<open>cs\<close> was a digit.\<close>

fun int_digits :: "int \<Rightarrow> bool \<Rightarrow> string \<Rightarrow> int option" where
  "int_digits acc d [] = (if d then Some acc else None)"
| "int_digits acc d (c # cs) =
     (if is_digit c then int_digits (10 * acc + digit_val c) True cs
      else if c = CHR ''_'' \<and> d then int_digits acc False cs
      else None)"

definition py_int :: "string \<Rightarrow> exn + int" where
  "py_int s =
     (let t = py_strip s;
          (neg, ds) = (case t of
                         [] \<Rightarrow> (False, [])
                       | c # r \<Rightarrow> if c = CHR ''-'' then (True, r)
                                  else if c = CHR ''+'' then (False, r)
                                  else (False, t))
      in case int_digits 0 False ds of
           None \<Rightarrow> Inl ValueError
         | Some n \<Rightarrow> Inr (if neg then - n else n))"

text \<open>The decimal digits of a number that is not negative.\<close>

function dec_digits :: "int \<Rightarrow> string" where
  "dec_digits n =
     (if n < 10 then [char_of (48 + n)]
      else dec_digits (n div 10) @ [char_of (48 + n mod 10)])"
  by pat_completeness auto
termination
  by (relation "measure nat") auto

declare dec_digits.simps [simp del]

definition py_str_int :: "int \<Rightarrow> string" where
  "py_str_int i = (if i < 0 then CHR ''-'' # dec_digits (- i) else dec_digits i)"

subsection \<open>\<^verbatim>\<open>str(x)\<close> and \<^verbatim>\<open>repr(x)\<close> of decoded values\<close>

text \<open>
  An f-string renders a value with \<^verbatim>\<open>str\<close>: a string as itself, every other value by its
  \<^verbatim>\<open>repr\<close>. The \<^verbatim>\<open>repr\<close> of a string is quoted with \<^verbatim>\<open>'\<close>, or with \<^verbatim>\<open>"\<close> when
  the string has a \<^verbatim>\<open>'\<close> and no \<^verbatim>\<open>"\<close>; the backslash and the quote are escaped, tab,
  newline and carriage return are written \<^verbatim>\<open>\t\<close>, \<^verbatim>\<open>\n\<close>, \<^verbatim>\<open>\r\<close>, and every other
  non-printable character is written \<^verbatim>\<open>\xhh\<close>.
\<close>

definition hex_digit :: "int \<Rightarrow> char" where
  "hex_digit n = (if n < 10 then char_of (48 + n) else char_of (87 + n))"

definition py_printable :: "char \<Rightarrow> bool" where
  "py_printable c =
     (let n = (of_char c :: int)
      in (32 \<le> n \<and> n < 127) \<or> (161 \<le> n \<and> n \<noteq> 173))"

definition py_repr_char :: "char \<Rightarrow> char \<Rightarrow> string" where
  "py_repr_char q c =
     (if c = CHR 0x5C \<or> c = q then [CHR 0x5C, c]
      else if c = CHR 0x09 then [CHR 0x5C, CHR ''t'']
      else if c = CHR 0x0A then [CHR 0x5C, CHR ''n'']
      else if c = CHR 0x0D then [CHR 0x5C, CHR ''r'']
      else if py_printable c then [c]
      else [CHR 0x5C, CHR ''x'', hex_digit ((of_char c :: int) div 16),
            hex_digit ((of_char c :: int) mod 16)])"

definition py_repr_str :: "string \<Rightarrow> string" where
  "py_repr_str s =
     (let q = (if CHR 0x27 \<in> set s \<and> CHR 0x22 \<notin> set s then CHR 0x22 else CHR 0x27)
      in q # concat (map (py_repr_char q) s) @ [q])"

fun join :: "string \<Rightarrow> string list \<Rightarrow> string" where
  "join sep [] = []"
| "join sep [x] = x"
| "join sep (x # y # ys) = x @ sep @ join sep (y # ys)"

fun py_repr :: "json \<Rightarrow> string" where
  "py_repr JNull = ''None''"
| "py_repr (JBool b) = (if b then ''True'' else ''False'')"
| "py_repr (JInt i) = py_str_int i"
| "py_repr (JStr s) = py_repr_str s"
| "py_repr (JArr xs) = ''['' @ join '', '' (map py_repr xs) @ '']''"
| "py_repr (JObj kvs) =
     ''{'' @ join '', '' (map (\<lambda>kv. py_repr_str (fst kv) @ '': '' @ py_repr (snd kv)) kvs) @ ''}''"

fun py_str :: "json \<Rightarrow> string" where
  "py_str (JStr s) = s"
| "py_str v = py_repr v"

text \<open>\<^verbatim>\<open>x.upper()\<close>: only a string has the method; its result is only printed.\<close>

fun py_upper :: "json \<Rightarrow> exn + unit" where
  "py_upper (JStr s) = Inr ()"
| "py_upper _ = Inl AttributeError"

subsection \<open>Floating-point numbers\<close>

text \<open>
  A Python float is an IEEE 754 binary64 number. A finite one is modelled by the rational it
  denotes, the two infinities and not-a-number by three more values (the sign of a zero is
  not kept: the script only compares a zero with 0). \<open>to_double\<close> rounds a rational to the
  nearest binary64 number, a tie going to the even significand, with gradual underflow below
  \<open>2 ^ -1022\<close> and overflow to an infinity when the rounded value reaches
  \<open>2 ^ 1024\<close>, that is, when its exponent is 1024. The interpreter's
  \<^verbatim>\<open>float(text)\<close> and its division are correctly rounded, so they are \<open>to_double\<close> of
  the exact value.
\<close>

datatype pyfloat = Fin rat | PosInf | NegInf | NaN

definition round_half_even :: "rat \<Rightarrow> int" where
  "round_half_even x =
     (let f = \<lfloor>x\<rfloor>; d = x - of_int f
      in if d < 1 / 2 then f
         else if 1 / 2 < d then f + 1
         else if even f then f else f + 1)"

function bit_length :: "int \<Rightarrow> int" where
  "bit_length n = (if n \<le> 0 then 0 else 1 + bit_length (n div 2))"
  by pat_completeness auto
termination
  by (relation "measure nat") auto

declare bit_length.simps [simp del]

definition pow2 :: "int \<Rightarrow> rat" where
  "pow2 k = (if 0 \<le> k then 2 ^ nat k else 1 / 2 ^ nat (- k))"

text \<open>For a positive \<open>a\<close>, the exponent \<open>e\<close> with \<open>2 ^ e \<le> a < 2 ^ (e + 1)\<close>.\<close>

definition floor_log2 :: "rat \<Rightarrow> int" where
  "floor_log2 a =
     (let k = bit_length (fst (quotient_of a)) - bit_length (snd (quotient_of a))
      in if pow2 k \<le> a then k else k - 1)"

definition to_double :: "rat \<Rightarrow> pyfloat" where
  "to_double r =
     (if r = 0 then Fin 0
      else
        (let a = \<bar>r\<bar>;
             e = floor_log2 a;
             q = (if e < - 1022 then - 1074 else e - 52);
             v = of_int (round_half_even (a / pow2 q)) * pow2 q
         in if 1024 \<le> floor_log2 v then (if 0 < r then PosInf else NegInf)
            else Fin (if 0 < r then v else - v)))"

text \<open>\<^verbatim>\<open>x > 0\<close> and \<^verbatim>\<open>x <= 0\<close>: comparisons of floats are exact, and every comparison
  with not-a-number is false.\<close>

fun float_gt0 :: "pyfloat \<Rightarrow> bool" where
  "float_gt0 (Fin x) = (0 < x)"
| "float_gt0 PosInf = True"
| "float_gt0 NegInf = False"
| "float_gt0 NaN = False"

fun float_le0 :: "pyfloat \<Rightarrow> bool" where
  "float_le0 (Fin x) = (x \<le> 0)"
| "float_le0 PosInf = False"
| "float_le0 NegInf = True"
| "float_le0 NaN = False"

text \<open>\<^verbatim>\<open>x / y\<close> for a finite float \<open>x\<close>: a zero divisor raises, an infinite one gives
  zero.\<close>

fun py_div :: "rat \<Rightarrow> pyfloat \<Rightarrow> exn + pyfloat" where
  "py_div x (Fin y) = (if y = 0 then Inl ZeroDivisionError else Inr (to_double (x / y)))"
| "py_div x PosInf = Inr (Fin 0)"
| "py_div x NegInf = Inr (Fin 0)"
| "py_div x NaN = Inr NaN"

text \<open>
  \<^verbatim>\<open>round(x, n)\<close> on a float: an infinity and not-a-number are returned as they are,
  more than 323 decimals return \<open>x\<close> and fewer than -308 return zero; otherwise the exact
  value of \<open>x\<close> is rounded to \<open>n\<close> decimals, a tie going to the even neighbour, and the
  decimal number is converted back to a float. If that conversion overflows, OverflowError
  is raised.
\<close>

definition round_decimal :: "rat \<Rightarrow> int \<Rightarrow> rat" where
  "round_decimal x n =
     (if 0 \<le> n then of_int (round_half_even (x * 10 ^ nat n)) / 10 ^ nat n
      else of_int (round_half_even (x / 10 ^ nat (- n))) * 10 ^ nat (- n))"

fun py_round :: "pyfloat \<Rightarrow> int \<Rightarrow> exn + pyfloat" where
  "py_round (Fin x) n =
     (if 323 < n then Inr (Fin x)
      else if n < - 308 then Inr (Fin 0)
      else (case to_double (round_decimal x n) of
              Fin y \<Rightarrow> Inr (Fin y)
            | _ \<Rightarrow> Inl OverflowError))"
| "py_round PosInf n = Inr PosInf"
| "py_round NegInf n = Inr NegInf"
| "py_round NaN n = Inr NaN"

section \<open>Market-type detection\<close>

definition FIXED_ORDER_VALUE_USDC :: rat where
  "FIXED_ORDER_VALUE_USDC = 20"

datatype market_type = SPOT | PERP

definition detect_market_type :: "string \<Rightarrow> market_type" where
  "detect_market_type coin_field =
     (if startswith coin_field ''@'' then SPOT
      else if contains_char CHR ''/'' coin_field then SPOT
      else PERP)"

text \<open>
  \<^verbatim>\<open>is_spot_order\<close> receives whatever \<^verbatim>\<open>state.get("coin", "")\<close> returned. A falsy
  value and the text \<^verbatim>\<open>N/A\<close> are rejected first; on any other value that is not a string
  \<^verbatim>\<open>startswith\<close> raises. The ValueError of \<^verbatim>\<open>int\<close> is caught and gives False.
\<close>

definition is_spot_order :: "json \<Rightarrow> exn + bool" where
  "is_spot_order coin_field =
     (if \<not> py_truthy coin_field \<or> coin_field = JStr ''N/A'' then Inr False
      else case coin_field of
          JStr c \<Rightarrow>
            if detect_market_type c \<noteq> SPOT then Inr False
            else if startswith c ''@'' then
              (case py_int (drop 1 c) of
                 Inl e \<Rightarrow> Inr False
               | Inr asset_index \<Rightarrow> if asset_index < 0 then Inr False else Inr True)
            else Inr True
        | _ \<Rightarrow> Inl AttributeError)"

section \<open>The venue: market metadata and the trading client\<close>

text \<open>
  \<^verbatim>\<open>Info\<close> and \<^verbatim>\<open>Exchange\<close> belong to the venue's client library. Their answers
  are parameters of the model. The metadata is typed as the script reads it: a field that
  \<^verbatim>\<open>dict.get\<close> may find missing is an option, and a call of the library that raises is
  an \<open>Inl\<close>. A stored price is \<open>Px x\<close> for a number or a numeric text of the exact value
  \<open>x\<close>, \<open>PxInfinity\<close>, \<open>PxNegInfinity\<close> and \<open>PxNaN\<close> for the texts and numbers
  that \<^verbatim>\<open>float\<close> reads as an infinity or as not-a-number, and \<open>PxInvalid\<close> for a value
  on which \<^verbatim>\<open>float\<close> raises, as on \<^verbatim>\<open>None\<close>.
\<close>

record pair_info =
  pair_name :: "string option"
  pair_index :: "int option"
  pair_tokens :: "int list option"

record token_info =
  token_szDecimals :: "int option"

record spot_meta_data =
  universe :: "pair_info list"
  tokens :: "token_info list"

datatype px = Px rat | PxInfinity | PxNegInfinity | PxNaN | PxInvalid

record asset_ctx =
  midPx :: "px option"
  markPx :: "px option"

text \<open>
  The two calls of \<^verbatim>\<open>Info\<close> the script makes. \<open>spot_meta_and_asset_ctxs\<close> is
  \<open>Inr None\<close> when the answer has fewer than two elements. One value of \<open>info\<close> is one
  snapshot of the venue's metadata: every call made while it is in use gets the same answer.
\<close>

record info =
  spot_meta_and_asset_ctxs :: "exn + (spot_meta_data \<times> asset_ctx list) option"
  spot_meta :: "exn + spot_meta_data"

text \<open>
  The two actions the script posts. \<open>TwapOrder a b s r m t\<close> is the action
  \<^verbatim>\<open>{"type": "twapOrder", "twap": {"a", "b", "s", "r", "m", "t"}}\<close>: asset, buy or sell, size
  on the wire, reduce-only, minutes, randomize. \<open>TwapCancel a t\<close> is
  \<^verbatim>\<open>{"type": "twapCancel", "a", "t"}\<close>: asset and the follower's order id.
\<close>

datatype action =
    TwapOrder int bool string json json json
  | TwapCancel int json

text \<open>
  \<open>float_to_wire\<close> and \<open>sign_l1_action\<close> are the library's wire encoding and signing;
  \<open>post_action\<close> is \<^verbatim>\<open>exchange._post_action\<close>, whose answer may depend on the actions
  posted before.
\<close>

record exchange =
  float_to_wire :: "pyfloat \<Rightarrow> exn + string"
  sign_l1_action :: "action \<Rightarrow> exn + unit"
  post_action :: "action list \<Rightarrow> action \<Rightarrow> exn + json"

section \<open>Resolving a spot asset\<close>

record asset_info =
  price :: pyfloat
  szDecimals :: int
  coin :: string

fun py_float :: "px \<Rightarrow> exn + pyfloat" where
  "py_float (Px x) = Inr (to_double x)"
| "py_float PxInfinity = Inr PosInf"
| "py_float PxNegInfinity = Inr NegInf"
| "py_float PxNaN = Inr NaN"
| "py_float PxInvalid = Inl TypeError"

text \<open>\<^verbatim>\<open>float(ctx.get("midPx", ctx.get("markPx", 0)))\<close>\<close>

definition ctx_price :: "asset_ctx \<Rightarrow> exn + pyfloat" where
  "ctx_price ctx =
     py_float (case midPx ctx of
                 Some v \<Rightarrow> v
               | None \<Rightarrow> (case markPx ctx of Some v \<Rightarrow> v | None \<Rightarrow> Px 0))"

text \<open>The size decimals of the pair's base token, 6 when any step of the lookup finds
  nothing.\<close>

definition lookup_size_decimals :: "spot_meta_data \<Rightarrow> int \<Rightarrow> exn + int" where
  "lookup_size_decimals meta index =
     (case find (\<lambda>pair. pair_index pair = Some index) (universe meta) of
        None \<Rightarrow> Inr 6
      | Some pair \<Rightarrow>
          (case pair_tokens pair of
             None \<Rightarrow> Inr 6
           | Some token_indices \<Rightarrow>
               (case token_indices of
                  [] \<Rightarrow> Inr 6
                | base_token_index # _ \<Rightarrow>
                    if base_token_index < int (length (tokens meta)) then
                      bind_exn (py_nth (tokens meta) base_token_index)
                        (\<lambda>token. Inr (case token_szDecimals token of None \<Rightarrow> 6 | Some d \<Rightarrow> d))
                    else Inr 6)))"

text \<open>The branch of \<^verbatim>\<open>get_spot_asset_info\<close> for a coin that starts with \<^verbatim>\<open>@\<close>,
  before its \<^verbatim>\<open>except\<close>.\<close>

definition spot_info_at_index :: "info \<Rightarrow> string \<Rightarrow> exn + asset_info option" where
  "spot_info_at_index info coin_field =
     bind_exn (spot_meta_and_asset_ctxs info) (\<lambda>spot_data.
       case spot_data of
         None \<Rightarrow> Inr None
       | Some (meta, asset_ctxs) \<Rightarrow>
           bind_exn (py_int (drop 1 coin_field)) (\<lambda>index.
             if index < int (length asset_ctxs) then
               bind_exn (py_nth asset_ctxs index) (\<lambda>ctx.
                 bind_exn (ctx_price ctx) (\<lambda>p.
                   if float_gt0 p then
                     bind_exn (lookup_size_decimals meta index) (\<lambda>size_decimals.
                       Inr (Some \<lparr>price = p, szDecimals = size_decimals, coin = coin_field\<rparr>))
                   else Inr None))
             else Inr None))"

definition catch_none :: "exn + 'a option \<Rightarrow> 'a option" where
  "catch_none m = (case m of Inl e \<Rightarrow> None | Inr r \<Rightarrow> r)"

text \<open>
  \<^verbatim>\<open>get_spot_asset_info\<close>. For a pair name the function calls itself on the text
  made of \<^verbatim>\<open>@\<close> and the pair's index; that argument starts with \<^verbatim>\<open>@\<close>, so the
  inner call takes the first branch, under its own \<^verbatim>\<open>except\<close>.
\<close>

definition get_spot_asset_info :: "info \<Rightarrow> json \<Rightarrow> asset_info option" where
  "get_spot_asset_info info coin_field =
     (case coin_field of
        JStr c \<Rightarrow>
          if startswith c ''@'' then catch_none (spot_info_at_index info c)
          else if contains_char CHR ''/'' c then
            catch_none
              (bind_exn (spot_meta info) (\<lambda>meta.
                 case find (\<lambda>pair. pair_name pair = Some c) (universe meta) of
                   Some pair \<Rightarrow>
                     Inr (catch_none
                            (spot_info_at_index info
                               (CHR ''@'' # (case pair_index pair of
                                              None \<Rightarrow> ''None''
                                            | Some i \<Rightarrow> py_str_int i))))
                 | None \<Rightarrow> Inr None))
          else None
      | _ \<Rightarrow> None)"

section \<open>Placing and cancelling the follower's order\<close>

text \<open>
  The asset index for an action, as both \<^verbatim>\<open>place_follower_twap_order\<close> and
  \<^verbatim>\<open>cancel_follower_twap_order\<close> compute it: read from an index reference, looked up by
  name in the universe for a pair name (the first pair of that name decides).
\<close>

datatype index_lookup = Found int | NotFound | Unsupported

definition twap_asset_index :: "info \<Rightarrow> json \<Rightarrow> exn + index_lookup" where
  "twap_asset_index info coin_field =
     (case coin_field of
        JStr c \<Rightarrow>
          if startswith c ''@'' then bind_exn (py_int (drop 1 c)) (\<lambda>i. Inr (Found i))
          else if contains_char CHR ''/'' c then
            bind_exn (spot_meta info) (\<lambda>meta.
              case find (\<lambda>pair. pair_name pair = Some c) (universe meta) of
                None \<Rightarrow> Inr NotFound
              | Some pair \<Rightarrow>
                  (case pair_index pair of None \<Rightarrow> Inr NotFound | Some i \<Rightarrow> Inr (Found i)))
          else Inr Unsupported
      | _ \<Rightarrow> Inl AttributeError)"

text \<open>What \<^verbatim>\<open>place_follower_twap_order\<close> reads from the answer to a placement: the
  \<^verbatim>\<open>twapId\<close> of a running order, or nothing.\<close>

definition twap_id_of_result :: "json \<Rightarrow> exn + json option" where
  "twap_id_of_result result =
     (if \<not> py_truthy result then Inr None
      else bind_exn (py_get result ''status'' JNull) (\<lambda>status.
        if status \<noteq> JStr ''ok'' then Inr None
        else bind_exn (py_get result ''response'' (JObj [])) (\<lambda>response.
          bind_exn (py_get response ''data'' (JObj [])) (\<lambda>response_data.
            bind_exn (py_get response_data ''status'' (JObj [])) (\<lambda>status_info.
              bind_exn (py_in ''running'' status_info) (\<lambda>running.
                if running then
                  bind_exn (py_item status_info ''running'') (\<lambda>r.
                    bind_exn (py_item r ''twapId'') (\<lambda>follower_twap_id.
                      Inr (Some follower_twap_id)))
                else Inr None))))))"

text \<open>
  \<^verbatim>\<open>place_follower_twap_order\<close> returns an order id or \<^verbatim>\<open>None\<close>. Each place where
  it gives up is a value of \<open>abandon\<close>, named after the message it prints there.
\<close>

datatype abandon =
    NotSpot
  | NoAssetInfo
  | InvalidSize
  | NoAssetIndex
  | UnsupportedFormat
  | PlacementFailed
  | AssetLookupError exn
  | PlacingError exn

text \<open>\<^verbatim>\<open>round(FIXED_ORDER_VALUE_USDC / asset_info["price"], asset_info["szDecimals"])\<close>\<close>

definition follower_total_size :: "asset_info \<Rightarrow> exn + pyfloat" where
  "follower_total_size asset_info =
     bind_exn (py_div FIXED_ORDER_VALUE_USDC (price asset_info))
       (\<lambda>quotient. py_round quotient (szDecimals asset_info))"

text \<open>The inner \<^verbatim>\<open>try\<close> of \<^verbatim>\<open>place_follower_twap_order\<close>: asset index, action, signature,
  post, answer. The second component is the list of posted actions.\<close>

definition submit_twap_order ::
  "exchange \<Rightarrow> info \<Rightarrow> json \<Rightarrow> bool \<Rightarrow> pyfloat \<Rightarrow> json \<Rightarrow> json \<Rightarrow> json \<Rightarrow> action list
     \<Rightarrow> (abandon + json) \<times> action list" where
  "submit_twap_order ex info coin_field is_buy total_size reduce_only minutes randomize sent =
     (case twap_asset_index info coin_field of
        Inl e \<Rightarrow> (Inl (AssetLookupError e), sent)
      | Inr NotFound \<Rightarrow> (Inl NoAssetIndex, sent)
      | Inr Unsupported \<Rightarrow> (Inl UnsupportedFormat, sent)
      | Inr (Found asset_index) \<Rightarrow>
          (case float_to_wire ex total_size of
             Inl e \<Rightarrow> (Inl (AssetLookupError e), sent)
           | Inr wire \<Rightarrow>
               (let twap_action =
                      TwapOrder (10000 + asset_index) is_buy wire reduce_only minutes randomize
                in case sign_l1_action ex twap_action of
                     Inl e \<Rightarrow> (Inl (AssetLookupError e), sent)
                   | Inr signature \<Rightarrow>
                       (case bind_exn (post_action ex sent twap_action) twap_id_of_result of
                          Inl e \<Rightarrow> (Inl (AssetLookupError e), sent @ [twap_action])
                        | Inr None \<Rightarrow> (Inl PlacementFailed, sent @ [twap_action])
                        | Inr (Some follower_twap_id) \<Rightarrow>
                            (Inr follower_twap_id, sent @ [twap_action])))))"

text \<open>The five fields \<^verbatim>\<open>place_follower_twap_order\<close> reads from the leader's event.\<close>

definition read_twap_state :: "json \<Rightarrow> exn + json \<times> json \<times> json \<times> json \<times> json" where
  "read_twap_state leader_twap_data =
     bind_exn (py_get leader_twap_data ''state'' (JObj [])) (\<lambda>state.
       bind_exn (py_get state ''coin'' (JStr [])) (\<lambda>coin_field.
         bind_exn (py_get state ''side'' JNull) (\<lambda>side.
           bind_exn (py_get state ''minutes'' (JInt 1)) (\<lambda>minutes.
             bind_exn (py_get state ''randomize'' (JBool False)) (\<lambda>randomize.
               bind_exn (py_get state ''reduceOnly'' (JBool False)) (\<lambda>reduce_only.
                 Inr (coin_field, side, minutes, randomize, reduce_only)))))))"

definition place_follower_twap_order ::
  "exchange \<Rightarrow> info \<Rightarrow> json \<Rightarrow> action list \<Rightarrow> (abandon + json) \<times> action list" where
  "place_follower_twap_order ex info leader_twap_data sent =
     (case read_twap_state leader_twap_data of
        Inl e \<Rightarrow> (Inl (PlacingError e), sent)
      | Inr (coin_field, side, minutes, randomize, reduce_only) \<Rightarrow>
          (case is_spot_order coin_field of
             Inl e \<Rightarrow> (Inl (PlacingError e), sent)
           | Inr spot \<Rightarrow>
               if \<not> spot then (Inl NotSpot, sent)
               else
                 (case get_spot_asset_info info coin_field of
                    None \<Rightarrow> (Inl NoAssetInfo, sent)
                  | Some asset_info \<Rightarrow>
                      (case follower_total_size asset_info of
                         Inl e \<Rightarrow> (Inl (PlacingError e), sent)
                       | Inr total_size \<Rightarrow>
                           if float_le0 total_size then (Inl InvalidSize, sent)
                           else submit_twap_order ex info coin_field (side = JStr ''B'')
                                  total_size reduce_only minutes randomize sent))))"

text \<open>What \<^verbatim>\<open>cancel_follower_twap_order\<close> reads from the answer to a cancellation.\<close>

definition cancel_succeeded :: "json \<Rightarrow> exn + bool" where
  "cancel_succeeded result =
     (if \<not> py_truthy result then Inr False
      else bind_exn (py_get result ''status'' JNull) (\<lambda>status.
        if status \<noteq> JStr ''ok'' then Inr False
        else bind_exn (py_get result ''response'' (JObj [])) (\<lambda>response.
          bind_exn (py_get response ''data'' (JObj [])) (\<lambda>response_data.
            bind_exn (py_get response_data ''status'' JNull) (\<lambda>status.
              if status = JStr ''success'' then Inr True
              else bind_exn (py_get response_data ''status'' (JObj [])) (\<lambda>err.
                bind_exn (py_get err ''error'' (JStr ''Unknown error'')) (\<lambda>error_msg.
                  Inr False)))))))"

definition cancel_follower_twap_order ::
  "exchange \<Rightarrow> info \<Rightarrow> json \<Rightarrow> json \<Rightarrow> action list \<Rightarrow> bool \<times> action list" where
  "cancel_follower_twap_order ex info follower_twap_id coin_field sent =
     (case twap_asset_index info coin_field of
        Inl e \<Rightarrow> (False, sent)
      | Inr NotFound \<Rightarrow> (False, sent)
      | Inr Unsupported \<Rightarrow> (False, sent)
      | Inr (Found asset_index) \<Rightarrow>
          (let twap_cancel_action = TwapCancel (10000 + asset_index) follower_twap_id
           in case sign_l1_action ex twap_cancel_action of
                Inl e \<Rightarrow> (False, sent)
              | Inr signature \<Rightarrow>
                  (case bind_exn (post_action ex sent twap_cancel_action) cancel_succeeded of
                     Inl e \<Rightarrow> (False, sent @ [twap_cancel_action])
                   | Inr ok \<Rightarrow> (ok, sent @ [twap_cancel_action]))))"

section \<open>Handling the leader's events\<close>

text \<open>
  The script's state: the global \<^verbatim>\<open>twap_mappings\<close> and, as a trace of its effect on the
  venue, the actions posted to the trading client so far, oldest first.
\<close>

record state =
  twap_mappings :: "string \<rightharpoonup> json"
  posted :: "action list"

text \<open>The key of a leader order:
  \<^verbatim>\<open>f"{coin_field}_{state.get('side')}_{state.get('sz')}_{state.get('minutes')}_{state.get('timestamp')}"\<close>\<close>

definition twap_key :: "json \<Rightarrow> json \<Rightarrow> exn + string" where
  "twap_key coin_field state =
     bind_exn (py_get state ''side'' JNull) (\<lambda>side.
       bind_exn (py_get state ''sz'' JNull) (\<lambda>sz.
         bind_exn (py_get state ''minutes'' JNull) (\<lambda>minutes.
           bind_exn (py_get state ''timestamp'' JNull) (\<lambda>timestamp.
             Inr (py_str coin_field @ ''_'' @ py_str side @ ''_'' @ py_str sz @ ''_''
                  @ py_str minutes @ ''_'' @ py_str timestamp)))))"

text \<open>
  What the body of the loop over \<^verbatim>\<open>twapHistory\<close> reads from one entry before it looks
  at the mappings: nothing for an entry that is not a spot order (the loop goes on to the next
  entry), otherwise the coin, the key and the status. The status is printed in upper case, which
  raises unless it is a string.
\<close>

definition read_leader_event :: "json \<Rightarrow> exn + (json \<times> string \<times> json) option" where
  "read_leader_event twap_event =
     bind_exn (py_get twap_event ''state'' (JObj [])) (\<lambda>state.
     bind_exn (py_get state ''coin'' (JStr [])) (\<lambda>coin_field.
     bind_exn (is_spot_order coin_field) (\<lambda>spot.
       if \<not> spot then Inr None
       else
     bind_exn (twap_key coin_field state) (\<lambda>key.
     bind_exn (py_get twap_event ''status'' (JObj [])) (\<lambda>status.
     bind_exn (py_get status ''status'' (JStr ''unknown'')) (\<lambda>twap_status.
     bind_exn (py_upper twap_status) (\<lambda>u.
       Inr (Some (coin_field, key, twap_status)))))))))"

text \<open>
  The body of the loop in \<^verbatim>\<open>handle_leader_twap_events\<close>, for one entry. An \<open>Inl\<close> is
  an exception that leaves the function; it can only be raised before the entry has had any
  effect.
\<close>

definition handle_twap_event :: "exchange \<Rightarrow> info \<Rightarrow> json \<Rightarrow> state \<Rightarrow> exn + state" where
  "handle_twap_event ex info twap_event st =
     bind_exn (read_leader_event twap_event) (\<lambda>leader.
       case leader of
         None \<Rightarrow> Inr st
       | Some (coin_field, key, twap_status) \<Rightarrow>
           if twap_mappings st key \<noteq> None then Inr st
           else if twap_status = JStr ''activated'' then
             (case place_follower_twap_order ex info twap_event (posted st) of
                (Inl reason, sent) \<Rightarrow> Inr (st\<lparr>posted := sent\<rparr>)
              | (Inr follower_twap_id, sent) \<Rightarrow>
                  if py_truthy follower_twap_id
                  then Inr \<lparr>twap_mappings = (twap_mappings st)(key \<mapsto> follower_twap_id),
                            posted = sent\<rparr>
                  else Inr (st\<lparr>posted := sent\<rparr>))
           else if twap_status = JStr ''canceled'' \<or> twap_status = JStr ''terminated'' then
             (case twap_mappings st key of
                Some follower_twap_id \<Rightarrow>
                  (case cancel_follower_twap_order ex info follower_twap_id coin_field
                          (posted st) of
                     (ok, sent) \<Rightarrow>
                       Inr \<lparr>twap_mappings = (twap_mappings st)(key := None), posted = sent\<rparr>)
              | None \<Rightarrow> Inr st)
           else Inr st)"

text \<open>The loop: an exception ends it and keeps what the earlier entries did.\<close>

fun handle_twap_events ::
  "exchange \<Rightarrow> info \<Rightarrow> json list \<Rightarrow> state \<Rightarrow> exn option \<times> state" where
  "handle_twap_events ex info [] st = (None, st)"
| "handle_twap_events ex info (twap_event # rest) st =
     (case handle_twap_event ex info twap_event st of
        Inl e \<Rightarrow> (Some e, st)
      | Inr st' \<Rightarrow> handle_twap_events ex info rest st')"

definition handle_leader_twap_events ::
  "exchange \<Rightarrow> info \<Rightarrow> json \<Rightarrow> state \<Rightarrow> exn option \<times> state" where
  "handle_leader_twap_events ex info data st =
     (case py_get data ''channel'' JNull of
        Inl e \<Rightarrow> (Some e, st)
      | Inr channel \<Rightarrow>
          if channel = JStr ''user'' then
            (case bind_exn (py_get data ''data'' (JObj [])) (\<lambda>user_data.
                    bind_exn (py_get user_data ''twapHistory'' (JArr [])) py_iter) of
               Inl e \<Rightarrow> (Some e, st)
             | Inr twap_history \<Rightarrow> handle_twap_events ex info twap_history st)
          else (None, st))"

section \<open>The message processor\<close>

text \<open>
  A frame taken from the queue is modelled by what \<^verbatim>\<open>json.loads\<close> makes of it: a decoded
  value, or JSONDecodeError. The body of the processor's loop decodes the frame and hands the
  value to \<^verbatim>\<open>handle_leader_twap_events\<close>; its two \<^verbatim>\<open>except\<close> clauses catch
  JSONDecodeError and every other exception, so the body always ends with a state. The loop
  runs the body on the frames of the queue in their order (a timeout of the wait for the
  next frame only repeats the wait).
\<close>

datatype frame = Malformed | Text json

fun json_loads :: "frame \<Rightarrow> exn + json" where
  "json_loads Malformed = Inl JSONDecodeError"
| "json_loads (Text data) = Inr data"

definition process_message :: "exchange \<Rightarrow> info \<Rightarrow> frame \<Rightarrow> state \<Rightarrow> state" where
  "process_message ex info message st =
     (case json_loads message of
        Inl e \<Rightarrow> st
      | Inr data \<Rightarrow> snd (handle_leader_twap_events ex info data st))"

fun message_processor :: "exchange \<Rightarrow> info \<Rightarrow> frame list \<Rightarrow> state \<Rightarrow> state" where
  "message_processor ex info [] st = st"
| "message_processor ex info (message # queue) st =
     message_processor ex info queue (process_message ex info message st)"

section \<open>The specification's vocabulary and example data\<close>

text \<open>
  The specification calls an instrument spot when its identifier is an index reference, the
  prefix \<^verbatim>\<open>@\<close> followed by a non-negative integer, or a slash-separated pair name. These
  two predicates follow the specification's words: a non-negative integer is a string of
  decimal digits that is not empty, and a pair name has a slash and does not start with the
  prefix.
\<close>

definition is_index_reference :: "string \<Rightarrow> bool" where
  "is_index_reference c =
     (case c of
        [] \<Rightarrow> False
      | x # ds \<Rightarrow> x = CHR ''@'' \<and> ds \<noteq> [] \<and> list_all is_digit ds)"

definition is_pair_name :: "string \<Rightarrow> bool" where
  "is_pair_name c = (\<not> startswith c ''@'' \<and> contains_char CHR ''/'' c)"

text \<open>
  The script's own test of what follows the prefix is \<^verbatim>\<open>int\<close>, which accepts more than
  digits: white space around the number, a sign, single underscores between digits.
  \<open>int_index_reference\<close> is that test; \<open>is_spot_order_string\<close> below compares it with
  \<open>is_spot_order\<close>.
\<close>

definition int_index_reference :: "string \<Rightarrow> bool" where
  "int_index_reference c =
     (startswith c ''@'' \<and> (case py_int (drop 1 c) of Inl e \<Rightarrow> False | Inr n \<Rightarrow> 0 \<le> n))"

text \<open>
  The specification's resolver gives an asset index (read from an index reference, looked up
  by name for a pair name) and a reference price (the mid price, else the mark price). These
  two functions follow those words on the model of the venue; \<open>resolver_reads_reference_price\<close>
  below compares them with \<open>get_spot_asset_info\<close>.
\<close>

definition asset_index_of :: "info \<Rightarrow> string \<Rightarrow> int option" where
  "asset_index_of info c =
     (if startswith c ''@'' then
        (case py_int (drop 1 c) of Inl e \<Rightarrow> None | Inr i \<Rightarrow> Some i)
      else if contains_char CHR ''/'' c then
        (case spot_meta info of
           Inl e \<Rightarrow> None
         | Inr meta \<Rightarrow>
             (case find (\<lambda>pair. pair_name pair = Some c) (universe meta) of
                None \<Rightarrow> None
              | Some pair \<Rightarrow> pair_index pair))
      else None)"

definition reference_price :: "info \<Rightarrow> string \<Rightarrow> pyfloat option" where
  "reference_price info c =
     (case asset_index_of info c of
        None \<Rightarrow> None
      | Some i \<Rightarrow>
          (case spot_meta_and_asset_ctxs info of
             Inr (Some (meta, asset_ctxs)) \<Rightarrow>
               (case bind_exn (py_nth asset_ctxs i) ctx_price of
                  Inl e \<Rightarrow> None
                | Inr p \<Rightarrow> Some p)
           | _ \<Rightarrow> None))"

text \<open>A frame of the user channel with the given entries in \<^verbatim>\<open>twapHistory\<close>, and an entry
  for a buy order of the given coin in the given status.\<close>

definition user_message :: "json list \<Rightarrow> json" where
  "user_message twap_history =
     JObj [(''channel'', JStr ''user''), (''data'', JObj [(''twapHistory'', JArr twap_history)])]"

definition twap_entry :: "string \<Rightarrow> string \<Rightarrow> json" where
  "twap_entry c status =
     JObj [(''state'', JObj [(''coin'', JStr c), (''side'', JStr ''B''), (''sz'', JStr ''10.0''),
                             (''minutes'', JInt 5), (''timestamp'', JInt 1700000000000)]),
           (''status'', JObj [(''status'', JStr status)])]"

text \<open>
  A wire encoding in the manner of the client library: the number with at most eight
  decimals and no trailing zeros, ValueError when eight decimals do not hold the number.
\<close>

definition decimal_wire :: "pyfloat \<Rightarrow> exn + string" where
  "decimal_wire x =
     (case x of
        PosInf \<Rightarrow> Inr ''Infinity''
      | NegInf \<Rightarrow> Inr ''-Infinity''
      | NaN \<Rightarrow> Inr ''NaN''
      | Fin v \<Rightarrow>
          (let r = round_half_even (\<bar>v\<bar> * 10 ^ 8);
               decimals = rev (dropWhile (\<lambda>d. d = CHR ''0'')
                                (rev (drop 1 (dec_digits (10 ^ 8 + r mod 10 ^ 8)))))
           in if 1 / 10 ^ 12 \<le> \<bar>of_int r / 10 ^ 8 - \<bar>v\<bar>\<bar> then Inl ValueError
              else Inr ((if v < 0 \<and> r \<noteq> 0 then ''-'' else [])
                        @ dec_digits (r div 10 ^ 8)
                        @ (if decimals = [] then [] else CHR ''.'' # decimals))))"

text \<open>A trading client that signs everything and answers every action with a running order
  of the given id.\<close>

definition running_reply :: "int \<Rightarrow> json" where
  "running_reply twap_id =
     JObj [(''status'', JStr ''ok''),
           (''response'',
            JObj [(''type'', JStr ''twapOrder''),
                  (''data'',
                   JObj [(''status'', JObj [(''running'', JObj [(''twapId'', JInt twap_id)])])])])]"

definition venue_exchange :: "int \<Rightarrow> exchange" where
  "venue_exchange twap_id =
     \<lparr>float_to_wire = decimal_wire,
      sign_l1_action = (\<lambda>a. Inr ()),
      post_action = (\<lambda>sent a. Inr (running_reply twap_id))\<rparr>"

text \<open>A trading client whose every post fails with an exception.\<close>

definition rejecting_exchange :: exchange where
  "rejecting_exchange =
     \<lparr>float_to_wire = decimal_wire,
      sign_l1_action = (\<lambda>a. Inr ()),
      post_action = (\<lambda>sent a. Inl ExternalError)\<rparr>"

text \<open>Market metadata with six spot assets, all at the given mid and mark price; the asset
  \<^verbatim>\<open>@5\<close> has a base token of two size decimals, the pair \<^verbatim>\<open>PURR/USDC\<close> is the asset
  0.\<close>

definition venue_meta :: spot_meta_data where
  "venue_meta =
     \<lparr>universe =
        [\<lparr>pair_name = Some ''PURR/USDC'', pair_index = Some 0, pair_tokens = Some [1, 0]\<rparr>,
         \<lparr>pair_name = Some ''@5'', pair_index = Some 5, pair_tokens = Some [2, 0]\<rparr>],
      tokens = [\<lparr>token_szDecimals = Some 8\<rparr>, \<lparr>token_szDecimals = Some 0\<rparr>,
                \<lparr>token_szDecimals = Some 2\<rparr>]\<rparr>"

definition venue_info :: "px \<Rightarrow> info" where
  "venue_info p =
     \<lparr>spot_meta_and_asset_ctxs =
        Inr (Some (venue_meta, replicate 6 \<lparr>midPx = Some p, markPx = Some p\<rparr>)),
      spot_meta = Inr venue_meta\<rparr>"


section \<open>Properties\<close>

subsection \<open>Raising computations\<close>

lemma bind_exn_Inr [simp]: "bind_exn (Inr x) f = f x"
  by (simp add: bind_exn_def)

lemma bind_exn_Inl [simp]: "bind_exn (Inl e) f = Inl e"
  by (simp add: bind_exn_def)

lemma bind_exn_eq_Inr:
  "bind_exn m f = Inr y \<longleftrightarrow> (\<exists>x. m = Inr x \<and> f x = Inr y)"
  by (cases m) simp_all

lemma py_get_Inr_obj: "py_get j k d = Inr v \<Longrightarrow> \<exists>kvs. j = JObj kvs"
  by (cases j) simp_all

subsection \<open>Rendering a number and reading it back\<close>

text \<open>\<^verbatim>\<open>int(str(i))\<close> is \<open>i\<close>: the pair-name branch of the resolver relies on it when it
  calls itself on the index it has found.\<close>

lemma digit_char:
  assumes "0 \<le> m" and "m < 10"
  shows "is_digit (char_of (48 + m :: int))"
    and "digit_val (char_of (48 + m :: int)) = m"
proof -
  have *: "of_char (char_of (48 + m :: int)) = 48 + m"
    using assms by simp
  show "is_digit (char_of (48 + m :: int))"
    using assms by (simp add: is_digit_def * del: of_char_of)
  show "digit_val (char_of (48 + m :: int)) = m"
    by (simp add: digit_val_def * del: of_char_of)
qed

lemma is_digit_plain:
  assumes "is_digit c"
  shows "\<not> py_isspace c" and "c \<noteq> CHR ''-''" and "c \<noteq> CHR ''+''"
  using assms by (auto simp: is_digit_def py_isspace_def Let_def)

lemma int_digits_all_digits:
  assumes "\<And>c. c \<in> set xs \<Longrightarrow> is_digit c"
  shows "int_digits acc d (xs @ ys) =
           int_digits (foldl (\<lambda>a c. 10 * a + digit_val c) acc xs) (d \<or> xs \<noteq> []) ys"
  using assms by (induction xs arbitrary: acc d) simp_all

lemma dec_digits_shape:
  assumes "0 \<le> n"
  shows "dec_digits n \<noteq> []
       \<and> (\<forall>c \<in> set (dec_digits n). is_digit c)
       \<and> (\<forall>acc. foldl (\<lambda>a c. 10 * a + digit_val c) acc (dec_digits n)
              = acc * 10 ^ length (dec_digits n) + n)"
  using assms
proof (induction n rule: dec_digits.induct)
  case (1 n)
  show ?case
  proof (cases "n < 10")
    case True
    with "1.prems" show ?thesis
      by (simp add: dec_digits.simps [of n] digit_char)
  next
    case False
    with "1.prems" have small: "0 \<le> n div 10" "0 \<le> n mod 10" "n mod 10 < 10"
      by simp_all
    from "1.IH" [OF False small(1)] False small(2,3) show ?thesis
      by (simp add: dec_digits.simps [of n] digit_char algebra_simps)
  qed
qed

lemma py_strip_digits:
  assumes "xs \<noteq> []" and "\<And>c. c \<in> set xs \<Longrightarrow> is_digit c"
  shows "py_strip xs = xs"
proof -
  from assms have "\<not> py_isspace (hd xs)" "\<not> py_isspace (last xs)"
    by (simp_all add: is_digit_plain)
  with assms(1) have "dropWhile py_isspace xs = xs" "dropWhile py_isspace (rev xs) = rev xs"
    by (simp_all add: dropWhile_eq_self_iff hd_rev)
  then show ?thesis by (simp add: py_strip_def)
qed

lemma py_int_dec_digits:
  assumes "0 \<le> n"
  shows "py_int (dec_digits n) = Inr n"
proof -
  from dec_digits_shape [OF assms]
  have ne: "dec_digits n \<noteq> []"
    and dig: "\<And>c. c \<in> set (dec_digits n) \<Longrightarrow> is_digit c"
    and val: "foldl (\<lambda>a c. 10 * a + digit_val c) 0 (dec_digits n) = n"
    by simp_all
  from ne obtain c r where cr: "dec_digits n = c # r"
    by (cases "dec_digits n") simp_all
  with dig have "is_digit c" by simp
  then have sign: "c \<noteq> CHR ''-''" "c \<noteq> CHR ''+''"
    by (simp_all add: is_digit_plain)
  have "int_digits 0 False (dec_digits n @ []) = Some n"
    using ne val by (simp only: int_digits_all_digits [OF dig]) simp
  then have "int_digits 0 False (c # r) = Some n"
    using cr by simp
  with sign show ?thesis
    using py_strip_digits [OF ne dig] cr by (simp add: py_int_def)
qed

lemma py_int_py_str_int: "py_int (py_str_int i) = Inr i"
proof (cases "i < 0")
  case False
  then show ?thesis by (simp add: py_str_int_def py_int_dec_digits)
next
  case True
  then have pos: "0 \<le> - i" by simp
  from dec_digits_shape [OF pos]
  have ne: "dec_digits (- i) \<noteq> []"
    and dig: "\<And>c. c \<in> set (dec_digits (- i)) \<Longrightarrow> is_digit c"
    and val: "foldl (\<lambda>a c. 10 * a + digit_val c) 0 (dec_digits (- i)) = - i"
    by simp_all
  have minus: "\<not> py_isspace CHR ''-''"
    by (simp add: py_isspace_def)
  from ne have "last (dec_digits (- i)) \<in> set (dec_digits (- i))"
    by simp
  moreover from this dig have "\<not> py_isspace (last (dec_digits (- i)))"
    by (simp add: is_digit_plain)
  ultimately have "dropWhile py_isspace (rev (dec_digits (- i)) @ [CHR ''-''])
                   = rev (dec_digits (- i)) @ [CHR ''-'']"
    using ne by (auto simp: dropWhile_append dropWhile_eq_self_iff hd_rev)
  with minus have "py_strip (CHR ''-'' # dec_digits (- i)) = CHR ''-'' # dec_digits (- i)"
    by (simp add: py_strip_def)
  moreover have "int_digits 0 False (dec_digits (- i) @ []) = Some (- i)"
    using ne val by (simp only: int_digits_all_digits [OF dig]) simp
  ultimately show ?thesis
    using True by (simp add: py_str_int_def py_int_def)
qed

subsection \<open>Spot orders and the resolver\<close>

text \<open>On a string, \<open>is_spot_order\<close> accepts what \<^verbatim>\<open>int\<close> reads as an index reference
  and every pair name, with the one text \<^verbatim>\<open>N/A\<close> taken out.\<close>

lemma is_spot_order_string:
  "is_spot_order (JStr c) = Inr ((int_index_reference c \<or> is_pair_name c) \<and> c \<noteq> ''N/A'')"
  by (cases "py_int (drop 1 c)")
     (auto simp: is_spot_order_def int_index_reference_def is_pair_name_def detect_market_type_def
                 startswith_def contains_char_def)

text \<open>An index reference in the specification's sense, the prefix and decimal digits, is one
  of those that \<^verbatim>\<open>int\<close> reads. The converse fails: \<^verbatim>\<open>int\<close> also reads a sign, white
  space and underscores.\<close>

lemma digits_value_nonneg:
  assumes "0 \<le> acc" and "\<And>c. c \<in> set xs \<Longrightarrow> is_digit c"
  shows "0 \<le> foldl (\<lambda>a c. 10 * a + digit_val c) acc xs"
  using assms
  by (induction xs arbitrary: acc) (auto simp: is_digit_def digit_val_def Let_def)

lemma index_reference_is_read_by_int:
  assumes "is_index_reference c"
  shows "int_index_reference c"
proof -
  from assms obtain d r where c: "c = CHR ''@'' # d # r"
    and dig: "\<And>x. x \<in> set (d # r) \<Longrightarrow> is_digit x"
    by (auto simp: is_index_reference_def list_all_iff neq_Nil_conv split: list.splits)
  from dig have "is_digit d" by simp
  then have sign: "d \<noteq> CHR ''-''" "d \<noteq> CHR ''+''"
    by (simp_all add: is_digit_plain)
  have strip: "py_strip (d # r) = d # r"
    using dig by (intro py_strip_digits) simp_all
  have "int_digits 0 False ((d # r) @ []) =
          Some (foldl (\<lambda>a c. 10 * a + digit_val c) 0 (d # r))"
    by (simp only: int_digits_all_digits [OF dig]) simp
  then have "int_digits 0 False (d # r) =
          Some (foldl (\<lambda>a c. 10 * a + digit_val c) 0 (d # r))"
    by simp
  with sign strip have "py_int (d # r) = Inr (foldl (\<lambda>a c. 10 * a + digit_val c) 0 (d # r))"
    by (simp add: py_int_def)
  moreover have "0 \<le> foldl (\<lambda>a c. 10 * a + digit_val c) 0 (d # r)"
    using dig by (intro digits_value_nonneg) simp_all
  ultimately show ?thesis
    by (simp add: int_index_reference_def c startswith_def)
qed

lemma spot_coin_is_string:
  assumes "is_spot_order cf = Inr True"
  shows "\<exists>c. cf = JStr c"
  using assms by (cases cf) (simp_all add: is_spot_order_def split: if_splits)

lemma resolver_price_positive:
  assumes "get_spot_asset_info info cf = Some ai"
  shows "float_gt0 (price ai)"
  using assms
  by (auto simp: get_spot_asset_info_def spot_info_at_index_def catch_none_def bind_exn_def
           split: json.splits if_splits sum.splits option.splits prod.splits)

lemma spot_info_price:
  assumes "spot_info_at_index info c = Inr (Some ai)"
  shows "\<exists>meta asset_ctxs index.
           spot_meta_and_asset_ctxs info = Inr (Some (meta, asset_ctxs))
           \<and> py_int (drop 1 c) = Inr index
           \<and> bind_exn (py_nth asset_ctxs index) ctx_price = Inr (price ai)"
  using assms
  by (auto simp: spot_info_at_index_def bind_exn_eq_Inr split: option.splits if_splits)

text \<open>Asset information, when the resolver returns it, carries the reference price of the
  coin, and that price is positive.\<close>

lemma resolver_reads_reference_price:
  assumes "get_spot_asset_info info (JStr c) = Some ai"
  shows "reference_price info c = Some (price ai)"
proof (cases "startswith c ''@''")
  case True
  with assms have "spot_info_at_index info c = Inr (Some ai)"
    by (simp add: get_spot_asset_info_def catch_none_def split: sum.splits)
  from spot_info_price [OF this] True show ?thesis
    by (auto simp: reference_price_def asset_index_of_def)
next
  case False
  with assms have slash: "contains_char CHR ''/'' c"
    by (simp add: get_spot_asset_info_def split: if_splits)
  with assms False obtain meta pair where
    meta: "spot_meta info = Inr meta"
    and pair: "find (\<lambda>pair. pair_name pair = Some c) (universe meta) = Some pair"
    and inner: "spot_info_at_index info
                  (CHR ''@'' # (case pair_index pair of None \<Rightarrow> ''None'' | Some i \<Rightarrow> py_str_int i))
                = Inr (Some ai)"
    by (auto simp: get_spot_asset_info_def catch_none_def bind_exn_def
             split: sum.splits option.splits)
  from spot_info_price [OF inner] obtain m asset_ctxs index where
    data: "spot_meta_and_asset_ctxs info = Inr (Some (m, asset_ctxs))"
    and index: "py_int (case pair_index pair of None \<Rightarrow> ''None'' | Some i \<Rightarrow> py_str_int i)
                = Inr index"
    and p: "bind_exn (py_nth asset_ctxs index) ctx_price = Inr (price ai)"
    by auto
  have none: "py_int ''None'' = Inl ValueError"
    by code_simp
  from index none have "pair_index pair = Some index"
    by (cases "pair_index pair") (simp_all add: py_int_py_str_int)
  with False slash meta pair data p show ?thesis
    by (simp add: reference_price_def asset_index_of_def)
qed

lemma resolver_rejects_low_price:
  assumes "reference_price info c = Some p" and "\<not> float_gt0 p"
  shows "get_spot_asset_info info (JStr c) = None"
proof (cases "get_spot_asset_info info (JStr c)")
  case None
  then show ?thesis .
next
  case (Some ai)
  from resolver_reads_reference_price [OF Some] assms(1) have "price ai = p"
    by simp
  moreover from Some have "float_gt0 (price ai)"
    by (rule resolver_price_positive)
  ultimately show ?thesis
    using assms(2) by simp
qed

subsection \<open>One entry of the history\<close>

lemma read_leader_event_spot:
  assumes "read_leader_event ev = Inr (Some (cf, k, status))"
  shows "is_spot_order cf = Inr True"
    and "\<exists>side minutes randomize reduce_only.
           read_twap_state ev = Inr (cf, side, minutes, randomize, reduce_only)"
proof -
  from assms obtain state where
    state: "py_get ev ''state'' (JObj []) = Inr state"
    and coin: "py_get state ''coin'' (JStr []) = Inr cf"
    and spot: "is_spot_order cf = Inr True"
    unfolding read_leader_event_def
    by (auto simp: bind_exn_eq_Inr split: if_splits)
  show "is_spot_order cf = Inr True"
    by (rule spot)
  from coin obtain kvs where "state = JObj kvs"
    by (auto dest: py_get_Inr_obj)
  with state coin
  show "\<exists>side minutes randomize reduce_only.
           read_twap_state ev = Inr (cf, side, minutes, randomize, reduce_only)"
    by (simp add: read_twap_state_def)
qed

lemma handle_not_spot:
  "read_leader_event ev = Inr None \<Longrightarrow> handle_twap_event ex info ev st = Inr st"
  by (simp add: handle_twap_event_def)

lemma handle_known_key:
  assumes "read_leader_event ev = Inr (Some (cf, k, status))"
      and "twap_mappings st k \<noteq> None"
  shows "handle_twap_event ex info ev st = Inr st"
  using assms by (simp add: handle_twap_event_def)

lemma handle_terminal_unknown_key:
  assumes "read_leader_event ev = Inr (Some (cf, k, status))"
      and "twap_mappings st k = None"
      and "status \<noteq> JStr ''activated''"
  shows "handle_twap_event ex info ev st = Inr st"
  using assms by (simp add: handle_twap_event_def)

lemma handle_activation:
  assumes "read_leader_event ev = Inr (Some (cf, k, JStr ''activated''))"
      and "twap_mappings st k = None"
  shows "handle_twap_event ex info ev st =
           (case place_follower_twap_order ex info ev (posted st) of
              (Inl reason, sent) \<Rightarrow> Inr (st\<lparr>posted := sent\<rparr>)
            | (Inr follower_twap_id, sent) \<Rightarrow>
                if py_truthy follower_twap_id
                then Inr \<lparr>twap_mappings = (twap_mappings st)(k \<mapsto> follower_twap_id), posted = sent\<rparr>
                else Inr (st\<lparr>posted := sent\<rparr>))"
  using assms by (simp add: handle_twap_event_def)

lemma place_spot_event:
  assumes "read_leader_event ev = Inr (Some (cf, k, status))"
  shows "\<exists>side minutes randomize reduce_only.
           read_twap_state ev = Inr (cf, side, minutes, randomize, reduce_only) \<and>
           place_follower_twap_order ex info ev sent =
             (case get_spot_asset_info info cf of
                None \<Rightarrow> (Inl NoAssetInfo, sent)
              | Some asset_info \<Rightarrow>
                  (case follower_total_size asset_info of
                     Inl e \<Rightarrow> (Inl (PlacingError e), sent)
                   | Inr total_size \<Rightarrow>
                       if float_le0 total_size then (Inl InvalidSize, sent)
                       else submit_twap_order ex info cf (side = JStr ''B'') total_size
                              reduce_only minutes randomize sent))"
proof -
  from read_leader_event_spot [OF assms]
  obtain side minutes randomize reduce_only
    where "read_twap_state ev = Inr (cf, side, minutes, randomize, reduce_only)"
      and "is_spot_order cf = Inr True"
    by blast
  then show ?thesis by (simp add: place_follower_twap_order_def)
qed

text \<open>The division of the fixed order value by a price the resolver has returned never
  raises, and an order whose asset index, wire size and signature are there is posted,
  whatever the venue answers.\<close>

lemma py_div_positive:
  assumes "float_gt0 p"
  shows "\<exists>q. py_div x p = Inr q"
  using assms by (cases p) simp_all

lemma submit_twap_order_found:
  assumes "twap_asset_index info cf = Inr (Found i)"
      and "float_to_wire ex sz = Inr w"
      and "sign_l1_action ex (TwapOrder (10000 + i) b w r m t) = Inr u"
  shows "snd (submit_twap_order ex info cf b sz r m t sent) = sent @ [TwapOrder (10000 + i) b w r m t]"
  using assms
  by (simp add: submit_twap_order_def Let_def split: sum.splits option.splits)

lemma submit_twap_order_posted:
  assumes "submit_twap_order ex info cf b sz r m t sent = (res, sent')"
  shows "sent' = sent \<or> (\<exists>a w. sent' = sent @ [TwapOrder a b w r m t] \<and> float_to_wire ex sz = Inr w)"
  using assms
  by (auto simp: submit_twap_order_def Let_def split: sum.splits index_lookup.splits option.splits)

lemma handle_after_read:
  assumes "read_leader_event ev = Inr r"
  shows "\<exists>st'. handle_twap_event ex info ev st = Inr st'"
  using assms
  by (auto simp: handle_twap_event_def split: option.splits sum.splits prod.splits)

text \<open>Whatever the entry and the state, handling an entry posts at most one action, and
  that action is an order: the script never posts a cancellation.\<close>

lemma place_posts_orders_only:
  assumes "place_follower_twap_order ex info ev sent = (res, sent')"
  shows "sent' = sent \<or> (\<exists>a b w r m t. sent' = sent @ [TwapOrder a b w r m t])"
proof -
  have sub: "\<And>cf b sz r m t res sent'.
      submit_twap_order ex info cf b sz r m t sent = (res, sent') \<Longrightarrow>
      sent' = sent \<or> (\<exists>a b w r m t. sent' = sent @ [TwapOrder a b w r m t])"
    by (blast dest: submit_twap_order_posted)
  from assms show ?thesis
    by (auto simp: place_follower_twap_order_def split: sum.splits prod.splits if_splits option.splits
             dest: sub)
qed

lemma no_cancel_is_ever_posted:
  assumes "handle_twap_event ex info ev st = Inr st'"
  shows "posted st' = posted st \<or> (\<exists>a b w r m t. posted st' = posted st @ [TwapOrder a b w r m t])"
proof (cases "read_leader_event ev")
  case (Inl e)
  with assms show ?thesis by (simp add: handle_twap_event_def)
next
  case (Inr leader)
  show ?thesis
  proof (cases leader)
    case None
    with Inr assms show ?thesis by (simp add: handle_twap_event_def)
  next
    case (Some triple)
    obtain cf k status where triple: "triple = (cf, k, status)"
      by (cases triple) auto
    show ?thesis
    proof (cases "twap_mappings st k = None \<and> status = JStr ''activated''")
      case False
      with Inr Some triple assms have "st' = st"
        by (auto simp: handle_twap_event_def split: if_splits)
      then show ?thesis by simp
    next
      case True
      obtain res sent' where place:
        "place_follower_twap_order ex info ev (posted st) = (res, sent')"
        by (cases "place_follower_twap_order ex info ev (posted st)") blast
      with True Inr Some triple assms have "posted st' = sent'"
        by (auto simp: handle_twap_event_def split: sum.splits if_splits)
      with place_posts_orders_only [OF place] show ?thesis by simp
    qed
  qed
qed

text \<open>A mapping, once made, stays: no entry, no frame changes or removes it.\<close>

lemma handle_twap_event_keeps:
  assumes "handle_twap_event ex info ev st = Inr st'"
      and "twap_mappings st k = Some v"
  shows "twap_mappings st' k = Some v"
  using assms
  by (auto simp: handle_twap_event_def bind_exn_def split: sum.splits option.splits prod.splits if_splits)

lemma handle_twap_events_keeps:
  assumes "twap_mappings st k = Some v"
  shows "twap_mappings (snd (handle_twap_events ex info evs st)) k = Some v"
  using assms
proof (induction evs arbitrary: st)
  case Nil
  then show ?case by simp
next
  case (Cons ev evs)
  show ?case
  proof (cases "handle_twap_event ex info ev st")
    case (Inl e)
    with Cons.prems show ?thesis by simp
  next
    case (Inr st')
    with Cons.prems have "twap_mappings st' k = Some v"
      by (auto dest: handle_twap_event_keeps)
    with Cons.IH Inr show ?thesis by simp
  qed
qed

lemma handle_leader_twap_events_keeps:
  assumes "twap_mappings st k = Some v"
  shows "twap_mappings (snd (handle_leader_twap_events ex info data st)) k = Some v"
  using assms handle_twap_events_keeps [OF assms]
  by (auto simp: handle_leader_twap_events_def split: sum.splits)

lemma message_processor_keeps:
  assumes "twap_mappings st k = Some v"
  shows "twap_mappings (message_processor ex info queue st) k = Some v"
  using assms
proof (induction queue arbitrary: st)
  case Nil
  then show ?case by simp
next
  case (Cons message queue)
  have "twap_mappings (process_message ex info message st) k = Some v"
    using Cons.prems
    by (cases message) (simp_all add: process_message_def handle_leader_twap_events_keeps)
  then show ?case
    using Cons.IH by simp
qed

lemma handle_user_message:
  "handle_leader_twap_events ex info (user_message evs) st = handle_twap_events ex info evs st"
  by (simp add: handle_leader_twap_events_def user_message_def)

lemma handle_single_entry:
  assumes "handle_twap_event ex info ev st = Inr st'"
  shows "handle_leader_twap_events ex info (user_message [ev]) st = (None, st')"
  using assms by (simp add: handle_user_message)

lemma message_processor_append:
  "message_processor ex info (pre @ queue) st =
     message_processor ex info queue (message_processor ex info pre st)"
  by (induction pre arbitrary: st) simp_all

text \<open>Within a frame, the entries before one that raises keep their effect, and the entries
  after it are not handled.\<close>

lemma handle_twap_events_raise:
  assumes "handle_twap_events ex info before st = (None, st1)"
      and "handle_twap_event ex info ev st1 = Inl e"
  shows "handle_twap_events ex info (before @ ev # rest) st = (Some e, st1)"
  using assms
  by (induction before arbitrary: st) (auto split: sum.splits)

lemma handle_twap_events_no_raise:
  assumes "handle_twap_events ex info before st = (None, st1)"
  shows "handle_twap_events ex info (before @ rest) st = handle_twap_events ex info rest st1"
  using assms
  by (induction before arbitrary: st) (auto split: sum.splits)

subsection \<open>The example data, evaluated\<close>

lemma spot_5: "is_spot_order (JStr ''@5'') = Inr True"
  by code_simp

lemma index_5: "twap_asset_index info (JStr ''@5'') = Inr (Found 5)"
proof -
  have "py_int ''5'' = Inr 5" by code_simp
  then show ?thesis by (simp add: twap_asset_index_def startswith_def)
qed

text \<open>
  Division and rounding of floats. 20 / 4 is 5. 20 / 4000 is not 0.005, which no float is,
  but the float next to it, a little above; two decimals of that float are 0.01, where the
  exact quotient, a tie, would go to 0. 20 / 160 is 0.125 exactly, a tie that goes to the even
  0.12. 20 / 1000000 rounds to 0.
\<close>

lemma size_at_4:
  "py_div 20 (Fin 4) = Inr (Fin 5)"
  "py_round (Fin 5) 2 = Inr (Fin 5)"
  by code_simp+

lemma size_at_4000:
  "py_div 20 (Fin 4000) = Inr (Fin (5764607523034235 / 1152921504606846976))"
  "py_round (Fin (5764607523034235 / 1152921504606846976)) 2 =
     Inr (Fin (5764607523034235 / 576460752303423488))"
  by code_simp+

lemma size_at_160:
  "py_div 20 (Fin 160) = Inr (Fin (1 / 8))"
  "py_round (Fin (1 / 8)) 2 = Inr (Fin (1080863910568919 / 9007199254740992))"
  by code_simp+

lemma size_at_1000000:
  "py_div 20 (Fin 1000000) = Inr (Fin (5902958103587057 / 295147905179352825856))"
  "py_round (Fin (5902958103587057 / 295147905179352825856)) 2 = Inr (Fin 0)"
  by code_simp+

lemma nearest_floats:
  "to_double (1 / 200) = Fin (5764607523034235 / 1152921504606846976)"
  "to_double (1 / 100) = Fin (5764607523034235 / 576460752303423488)"
  "to_double (12 / 100) = Fin (1080863910568919 / 9007199254740992)"
  by code_simp+

lemma wire_examples:
  "decimal_wire (Fin 5) = Inr ''5''"
  "decimal_wire (Fin (5764607523034235 / 576460752303423488)) = Inr ''0.01''"
  by code_simp+

lemma read_activated_5:
  "read_leader_event (twap_entry ''@5'' ''activated'') =
     Inr (Some (JStr ''@5'', ''@5_B_10.0_5_1700000000000'', JStr ''activated''))"
  by code_simp

lemma read_terminated_5:
  "read_leader_event (twap_entry ''@5'' ''terminated'') =
     Inr (Some (JStr ''@5'', ''@5_B_10.0_5_1700000000000'', JStr ''terminated''))"
  by code_simp

lemma read_state_5:
  "read_twap_state (twap_entry ''@5'' ''activated'') =
     Inr (JStr ''@5'', JStr ''B'', JInt 5, JBool False, JBool False)"
  by code_simp

lemma resolve_5:
  "get_spot_asset_info (venue_info (Px 4)) (JStr ''@5'') =
     Some \<lparr>price = Fin 4, szDecimals = 2, coin = ''@5''\<rparr>"
  by code_simp

lemma resolve_5_at_4000:
  "get_spot_asset_info (venue_info (Px 4000)) (JStr ''@5'') =
     Some \<lparr>price = Fin 4000, szDecimals = 2, coin = ''@5''\<rparr>"
  by code_simp

lemma resolve_5_at_1000000:
  "get_spot_asset_info (venue_info (Px 1000000)) (JStr ''@5'') =
     Some \<lparr>price = Fin 1000000, szDecimals = 2, coin = ''@5''\<rparr>"
  by code_simp

lemma reference_price_5:
  "reference_price (venue_info (Px 4)) ''@5'' = Some (Fin 4)"
  "reference_price (venue_info (Px 4000)) ''@5'' = Some (Fin 4000)"
  "reference_price (venue_info (Px 1000000)) ''@5'' = Some (Fin 1000000)"
  by code_simp+

lemma read_activated_pair:
  "read_leader_event (twap_entry ''PURR/USDC'' ''activated'') =
     Inr (Some (JStr ''PURR/USDC'', ''PURR/USDC_B_10.0_5_1700000000000'', JStr ''activated''))"
  by code_simp

lemma reference_price_zero:
  "reference_price (venue_info (Px 0)) ''@5'' = Some (Fin 0)"
  "reference_price (venue_info (Px 0)) ''PURR/USDC'' = Some (Fin 0)"
  by code_simp+

lemma place_zero_price:
  "place_follower_twap_order (venue_exchange 123) (venue_info (Px 0))
     (twap_entry ''@5'' ''activated'') [] = (Inl NoAssetInfo, [])"
  by code_simp

lemma handle_activated_5:
  "handle_twap_event (venue_exchange 123) (venue_info (Px 4)) (twap_entry ''@5'' ''activated'')
     \<lparr>twap_mappings = Map.empty, posted = []\<rparr>
   = Inr \<lparr>twap_mappings = [''@5_B_10.0_5_1700000000000'' \<mapsto> JInt 123],
           posted = [TwapOrder 10005 True ''5'' (JBool False) (JInt 5) (JBool False)]\<rparr>"
proof -
  have "place_follower_twap_order (venue_exchange 123) (venue_info (Px 4))
          (twap_entry ''@5'' ''activated'') []
        = (Inr (JInt 123), [TwapOrder 10005 True ''5'' (JBool False) (JInt 5) (JBool False)])"
    by code_simp
  then show ?thesis
    by (simp add: handle_activation [OF read_activated_5])
qed

lemma handle_activated_5_at_4000:
  "handle_twap_event (venue_exchange 123) (venue_info (Px 4000))
     (twap_entry ''@5'' ''activated'') \<lparr>twap_mappings = Map.empty, posted = []\<rparr>
   = Inr \<lparr>twap_mappings = [''@5_B_10.0_5_1700000000000'' \<mapsto> JInt 123],
           posted = [TwapOrder 10005 True ''0.01'' (JBool False) (JInt 5) (JBool False)]\<rparr>"
proof -
  have "place_follower_twap_order (venue_exchange 123) (venue_info (Px 4000))
          (twap_entry ''@5'' ''activated'') []
        = (Inr (JInt 123), [TwapOrder 10005 True ''0.01'' (JBool False) (JInt 5) (JBool False)])"
    by code_simp
  then show ?thesis
    by (simp add: handle_activation [OF read_activated_5])
qed

lemma handle_rejected_5:
  "handle_twap_event rejecting_exchange (venue_info (Px 4)) (twap_entry ''@5'' ''activated'')
     \<lparr>twap_mappings = Map.empty, posted = []\<rparr>
   = Inr \<lparr>twap_mappings = Map.empty,
           posted = [TwapOrder 10005 True ''5'' (JBool False) (JInt 5) (JBool False)]\<rparr>"
  "handle_twap_event rejecting_exchange (venue_info (Px 4)) (twap_entry ''@5'' ''activated'')
     \<lparr>twap_mappings = Map.empty,
      posted = [TwapOrder 10005 True ''5'' (JBool False) (JInt 5) (JBool False)]\<rparr>
   = Inr \<lparr>twap_mappings = Map.empty,
           posted = [TwapOrder 10005 True ''5'' (JBool False) (JInt 5) (JBool False),
                     TwapOrder 10005 True ''5'' (JBool False) (JInt 5) (JBool False)]\<rparr>"
proof -
  have "place_follower_twap_order rejecting_exchange (venue_info (Px 4))
          (twap_entry ''@5'' ''activated'') []
        = (Inl (AssetLookupError ExternalError),
           [TwapOrder 10005 True ''5'' (JBool False) (JInt 5) (JBool False)])"
    by code_simp
  then show
    "handle_twap_event rejecting_exchange (venue_info (Px 4)) (twap_entry ''@5'' ''activated'')
       \<lparr>twap_mappings = Map.empty, posted = []\<rparr>
     = Inr \<lparr>twap_mappings = Map.empty,
             posted = [TwapOrder 10005 True ''5'' (JBool False) (JInt 5) (JBool False)]\<rparr>"
    by (simp add: handle_activation [OF read_activated_5])
  have "place_follower_twap_order rejecting_exchange (venue_info (Px 4))
          (twap_entry ''@5'' ''activated'')
          [TwapOrder 10005 True ''5'' (JBool False) (JInt 5) (JBool False)]
        = (Inl (AssetLookupError ExternalError),
           [TwapOrder 10005 True ''5'' (JBool False) (JInt 5) (JBool False),
            TwapOrder 10005 True ''5'' (JBool False) (JInt 5) (JBool False)])"
    by code_simp
  then show
    "handle_twap_event rejecting_exchange (venue_info (Px 4)) (twap_entry ''@5'' ''activated'')
       \<lparr>twap_mappings = Map.empty,
        posted = [TwapOrder 10005 True ''5'' (JBool False) (JInt 5) (JBool False)]\<rparr>
     = Inr \<lparr>twap_mappings = Map.empty,
             posted = [TwapOrder 10005 True ''5'' (JBool False) (JInt 5) (JBool False),
                       TwapOrder 10005 True ''5'' (JBool False) (JInt 5) (JBool False)]\<rparr>"
    by (simp add: handle_activation [OF read_activated_5])
qed

text \<open>An entry without a usable \<^verbatim>\<open>state\<close>: reading it raises.\<close>

lemma read_stateless:
  "read_leader_event (JObj [(''state'', JNull)]) = Inl AttributeError"
  by code_simp

lemma read_activated_signed:
  "read_leader_event (twap_entry ''@+5'' ''activated'') =
     Inr (Some (JStr ''@+5'', ''@+5_B_10.0_5_1700000000000'', JStr ''activated''))"
  by code_simp

subsection \<open>Events for a key that is already mapped\<close>

text \<open>
  Claim C1. Where a key \<open>k\<close> is mapped to the follower's order id \<open>v\<close>, a Canceled or
  Terminated event with key \<open>k\<close> is to cancel the order \<open>v\<close> with one call and to remove
  \<open>k\<close>, whatever the cancel call reports. The script does not do so: the test
  \<^verbatim>\<open>if twap_key in twap_mappings: continue\<close> stands before the status is looked at, so
  the entry is skipped like a known activation. Nothing is posted and \<open>k\<close> stays mapped to
  \<open>v\<close>. The branch for canceled and terminated orders further down is only reached with a
  key that is not mapped, where it does nothing.
\<close>

theorem terminal_event_for_mapped_key_is_skipped:
  assumes "read_leader_event ev = Inr (Some (cf, k, status))"
      and "status = JStr ''canceled'' \<or> status = JStr ''terminated''"
      and "twap_mappings st k = Some v"
  shows "handle_twap_event ex info ev st = Inr st
       \<and> handle_leader_twap_events ex info (user_message [ev]) st = (None, st)"
proof -
  have "handle_twap_event ex info ev st = Inr st"
    using assms(1,3) by (simp add: handle_known_key)
  then show ?thesis
    by (simp add: handle_single_entry)
qed

theorem terminal_event_for_mapped_key_is_skipped_witness:
  "read_leader_event (twap_entry ''@5'' ''terminated'') =
     Inr (Some (JStr ''@5'', ''@5_B_10.0_5_1700000000000'', JStr ''terminated''))
   \<and> twap_mappings \<lparr>twap_mappings = [''@5_B_10.0_5_1700000000000'' \<mapsto> JInt 77], posted = []\<rparr>
        ''@5_B_10.0_5_1700000000000'' = Some (JInt 77)
   \<and> handle_twap_event (venue_exchange 1) (venue_info (Px 4)) (twap_entry ''@5'' ''terminated'')
        \<lparr>twap_mappings = [''@5_B_10.0_5_1700000000000'' \<mapsto> JInt 77], posted = []\<rparr>
      = Inr \<lparr>twap_mappings = [''@5_B_10.0_5_1700000000000'' \<mapsto> JInt 77], posted = []\<rparr>
   \<and> handle_leader_twap_events (venue_exchange 1) (venue_info (Px 4))
        (user_message [twap_entry ''@5'' ''terminated''])
        \<lparr>twap_mappings = [''@5_B_10.0_5_1700000000000'' \<mapsto> JInt 77], posted = []\<rparr>
      = (None, \<lparr>twap_mappings = [''@5_B_10.0_5_1700000000000'' \<mapsto> JInt 77], posted = []\<rparr>)"
  using terminal_event_for_mapped_key_is_skipped
          [OF read_terminated_5, of "\<lparr>twap_mappings = [''@5_B_10.0_5_1700000000000'' \<mapsto> JInt 77], posted = []\<rparr>"
              "JInt 77" "venue_exchange 1" "venue_info (Px 4)"]
        read_terminated_5
  by simp

text \<open>
  Claim C2. An Activated event whose key is already mapped is skipped: handling it posts no
  action, neither a placement nor a cancellation, and leaves the mappings as they are.
\<close>

theorem activated_event_for_mapped_key_is_skipped:
  assumes "read_leader_event ev = Inr (Some (cf, k, JStr ''activated''))"
      and "twap_mappings st k = Some v"
  shows "handle_twap_event ex info ev st = Inr st
       \<and> handle_leader_twap_events ex info (user_message [ev]) st = (None, st)"
proof -
  have "handle_twap_event ex info ev st = Inr st"
    using assms by (simp add: handle_known_key)
  then show ?thesis
    by (simp add: handle_single_entry)
qed

theorem activated_event_for_mapped_key_is_skipped_witness:
  "read_leader_event (twap_entry ''@5'' ''activated'') =
     Inr (Some (JStr ''@5'', ''@5_B_10.0_5_1700000000000'', JStr ''activated''))
   \<and> twap_mappings \<lparr>twap_mappings = [''@5_B_10.0_5_1700000000000'' \<mapsto> JInt 123], posted = []\<rparr>
        ''@5_B_10.0_5_1700000000000'' = Some (JInt 123)
   \<and> handle_twap_event (venue_exchange 1) (venue_info (Px 4)) (twap_entry ''@5'' ''activated'')
        \<lparr>twap_mappings = [''@5_B_10.0_5_1700000000000'' \<mapsto> JInt 123], posted = []\<rparr>
      = Inr \<lparr>twap_mappings = [''@5_B_10.0_5_1700000000000'' \<mapsto> JInt 123], posted = []\<rparr>
   \<and> handle_leader_twap_events (venue_exchange 1) (venue_info (Px 4))
        (user_message [twap_entry ''@5'' ''activated''])
        \<lparr>twap_mappings = [''@5_B_10.0_5_1700000000000'' \<mapsto> JInt 123], posted = []\<rparr>
      = (None, \<lparr>twap_mappings = [''@5_B_10.0_5_1700000000000'' \<mapsto> JInt 123], posted = []\<rparr>)"
  using activated_event_for_mapped_key_is_skipped
          [OF read_activated_5, of "\<lparr>twap_mappings = [''@5_B_10.0_5_1700000000000'' \<mapsto> JInt 123], posted = []\<rparr>"
              "JInt 123" "venue_exchange 1" "venue_info (Px 4)"]
        read_activated_5
  by simp

subsection \<open>Mirroring an activation\<close>

text \<open>The scenario of an Activated event for the coin \<^verbatim>\<open>@5\<close>, side \<^verbatim>\<open>B\<close>, five minutes,
  with the price 4 and two size decimals: the size is 5, and the order for asset 10005 is
  posted; what the placement returns is the order id the venue gave.\<close>

lemma place_activation_5:
  assumes fields: "read_twap_state ev = Inr (JStr ''@5'', JStr ''B'', JInt 5, randomize, reduce_only)"
      and resolved: "get_spot_asset_info info (JStr ''@5'') = Some asset_info"
      and price: "price asset_info = Fin 4"
      and decimals: "szDecimals asset_info = 2"
      and wire: "float_to_wire ex (Fin 5) = Inr wire"
      and sign: "sign_l1_action ex (TwapOrder 10005 True wire reduce_only (JInt 5) randomize) = Inr ()"
      and reply: "post_action ex sent (TwapOrder 10005 True wire reduce_only (JInt 5) randomize)
                    = Inr result"
      and running: "twap_id_of_result result = Inr (Some follower_twap_id)"
  shows "place_follower_twap_order ex info ev sent
           = (Inr follower_twap_id,
              sent @ [TwapOrder 10005 True wire reduce_only (JInt 5) randomize])"
proof -
  have "py_div FIXED_ORDER_VALUE_USDC (Fin 4) = Inr (Fin 5)"
    by code_simp
  then have size: "follower_total_size asset_info = Inr (Fin 5)"
    unfolding follower_total_size_def price decimals
    by (simp only: bind_exn_Inr size_at_4)
  have large: "\<not> float_le0 (Fin 5)"
    by simp
  have "submit_twap_order ex info (JStr ''@5'') True (Fin 5) reduce_only (JInt 5) randomize sent
        = (Inr follower_twap_id, sent @ [TwapOrder 10005 True wire reduce_only (JInt 5) randomize])"
    using wire sign reply running by (simp add: submit_twap_order_def index_5)
  then show ?thesis
    using fields resolved size large by (simp add: place_follower_twap_order_def spot_5)
qed

text \<open>
  Claim C3. An Activated event for the coin \<^verbatim>\<open>@5\<close>, side \<^verbatim>\<open>B\<close>, five minutes, whose
  key is not mapped, where the resolver gives the price 4 and two size decimals, is to post one
  order (asset 10005, buy, size 5, five minutes) and to leave the event's key mapped to the
  order id that the venue returned. The script posts that order, but it keeps the id only
  when the id is truthy: the test is \<^verbatim>\<open>if follower_twap_id:\<close>, where the failure value of
  \<^verbatim>\<open>place_follower_twap_order\<close> is \<^verbatim>\<open>None\<close>. When the venue answers that the order is
  running under an id that is falsy, as the id 0 is, the order is posted,
  \<^verbatim>\<open>place_follower_twap_order\<close> returns that id (and reports the order as placed), and
  the mappings stay as they were, without the event's key.
\<close>

theorem falsy_order_id_is_posted_but_not_mapped:
  assumes ev: "read_leader_event ev = Inr (Some (JStr ''@5'', k, JStr ''activated''))"
      and fields: "read_twap_state ev = Inr (JStr ''@5'', JStr ''B'', JInt 5, randomize, reduce_only)"
      and unmapped: "twap_mappings st k = None"
      and resolved: "get_spot_asset_info info (JStr ''@5'') = Some asset_info"
      and price: "price asset_info = Fin 4"
      and decimals: "szDecimals asset_info = 2"
      and wire: "float_to_wire ex (Fin 5) = Inr wire"
      and sign: "sign_l1_action ex (TwapOrder 10005 True wire reduce_only (JInt 5) randomize) = Inr ()"
      and reply: "post_action ex (posted st) (TwapOrder 10005 True wire reduce_only (JInt 5) randomize)
                    = Inr result"
      and running: "twap_id_of_result result = Inr (Some follower_twap_id)"
      and falsy: "\<not> py_truthy follower_twap_id"
  shows "place_follower_twap_order ex info ev (posted st)
           = (Inr follower_twap_id,
              posted st @ [TwapOrder 10005 True wire reduce_only (JInt 5) randomize])
       \<and> handle_twap_event ex info ev st =
           Inr \<lparr>twap_mappings = twap_mappings st,
                posted = posted st @ [TwapOrder 10005 True wire reduce_only (JInt 5) randomize]\<rparr>
       \<and> twap_mappings st k = None"
proof -
  have place: "place_follower_twap_order ex info ev (posted st)
           = (Inr follower_twap_id,
              posted st @ [TwapOrder 10005 True wire reduce_only (JInt 5) randomize])"
    using fields resolved price decimals wire sign reply running by (rule place_activation_5)
  then have "handle_twap_event ex info ev st =
           Inr \<lparr>twap_mappings = twap_mappings st,
                posted = posted st @ [TwapOrder 10005 True wire reduce_only (JInt 5) randomize]\<rparr>"
    using falsy by (simp add: handle_activation [OF ev unmapped])
  with place unmapped show ?thesis
    by simp
qed

theorem falsy_order_id_is_posted_but_not_mapped_witness:
  "read_leader_event (twap_entry ''@5'' ''activated'') =
     Inr (Some (JStr ''@5'', ''@5_B_10.0_5_1700000000000'', JStr ''activated''))
   \<and> get_spot_asset_info (venue_info (Px 4)) (JStr ''@5'') =
       Some \<lparr>price = Fin 4, szDecimals = 2, coin = ''@5''\<rparr>
   \<and> twap_id_of_result (running_reply 0) = Inr (Some (JInt 0))
   \<and> place_follower_twap_order (venue_exchange 0) (venue_info (Px 4))
        (twap_entry ''@5'' ''activated'') []
      = (Inr (JInt 0), [TwapOrder 10005 True ''5'' (JBool False) (JInt 5) (JBool False)])
   \<and> handle_twap_event (venue_exchange 0) (venue_info (Px 4)) (twap_entry ''@5'' ''activated'')
        \<lparr>twap_mappings = Map.empty, posted = []\<rparr>
      = Inr \<lparr>twap_mappings = Map.empty,
              posted = [TwapOrder 10005 True ''5'' (JBool False) (JInt 5) (JBool False)]\<rparr>"
proof -
  have id: "twap_id_of_result (running_reply 0) = Inr (Some (JInt 0))"
    by code_simp
  have "place_follower_twap_order (venue_exchange 0) (venue_info (Px 4))
          (twap_entry ''@5'' ''activated'') (posted \<lparr>twap_mappings = Map.empty, posted = []\<rparr>)
        = (Inr (JInt 0),
           posted \<lparr>twap_mappings = Map.empty, posted = []\<rparr>
             @ [TwapOrder 10005 True ''5'' (JBool False) (JInt 5) (JBool False)])
      \<and> handle_twap_event (venue_exchange 0) (venue_info (Px 4)) (twap_entry ''@5'' ''activated'')
          \<lparr>twap_mappings = Map.empty, posted = []\<rparr>
        = Inr \<lparr>twap_mappings = twap_mappings \<lparr>twap_mappings = Map.empty, posted = []\<rparr>,
                posted = posted \<lparr>twap_mappings = Map.empty, posted = []\<rparr>
                  @ [TwapOrder 10005 True ''5'' (JBool False) (JInt 5) (JBool False)]\<rparr>
      \<and> twap_mappings \<lparr>twap_mappings = Map.empty, posted = []\<rparr> ''@5_B_10.0_5_1700000000000''
          = None"
    using falsy_order_id_is_posted_but_not_mapped
            [OF read_activated_5 read_state_5 _ resolve_5 _ _ _ _ _ id,
             of "\<lparr>twap_mappings = Map.empty, posted = []\<rparr>" "venue_exchange 0" "''5''"]
    by (simp add: venue_exchange_def wire_examples)
  then show ?thesis
    using read_activated_5 resolve_5 id by simp
qed

text \<open>
  With an order id that is truthy, the scenario ends as the specification has it: exactly one
  action is posted, the order for asset 10005, buy, the wire form of the size 5, five minutes,
  and afterwards the mappings are the old ones with the event's key mapped to the returned
  id; started from no mappings, that is the only entry.
\<close>

theorem activation_places_order_and_maps_key:
  assumes ev: "read_leader_event ev = Inr (Some (JStr ''@5'', k, JStr ''activated''))"
      and fields: "read_twap_state ev = Inr (JStr ''@5'', JStr ''B'', JInt 5, randomize, reduce_only)"
      and unmapped: "twap_mappings st k = None"
      and resolved: "get_spot_asset_info info (JStr ''@5'') = Some asset_info"
      and price: "price asset_info = Fin 4"
      and decimals: "szDecimals asset_info = 2"
      and wire: "float_to_wire ex (Fin 5) = Inr wire"
      and sign: "sign_l1_action ex (TwapOrder 10005 True wire reduce_only (JInt 5) randomize) = Inr ()"
      and reply: "post_action ex (posted st) (TwapOrder 10005 True wire reduce_only (JInt 5) randomize)
                    = Inr result"
      and running: "twap_id_of_result result = Inr (Some follower_twap_id)"
      and nonzero: "py_truthy follower_twap_id"
  shows "handle_twap_event ex info ev st =
           Inr \<lparr>twap_mappings = (twap_mappings st)(k \<mapsto> follower_twap_id),
                posted = posted st @ [TwapOrder 10005 True wire reduce_only (JInt 5) randomize]\<rparr>
       \<and> (twap_mappings st = Map.empty \<longrightarrow>
            handle_twap_event ex info ev st =
              Inr \<lparr>twap_mappings = [k \<mapsto> follower_twap_id],
                   posted = posted st
                     @ [TwapOrder 10005 True wire reduce_only (JInt 5) randomize]\<rparr>)"
proof -
  have "place_follower_twap_order ex info ev (posted st)
        = (Inr follower_twap_id,
           posted st @ [TwapOrder 10005 True wire reduce_only (JInt 5) randomize])"
    using fields resolved price decimals wire sign reply running by (rule place_activation_5)
  then have "handle_twap_event ex info ev st =
           Inr \<lparr>twap_mappings = (twap_mappings st)(k \<mapsto> follower_twap_id),
                posted = posted st @ [TwapOrder 10005 True wire reduce_only (JInt 5) randomize]\<rparr>"
    using nonzero by (simp add: handle_activation [OF ev unmapped])
  then show ?thesis
    by simp
qed

theorem activation_places_order_and_maps_key_witness:
  "read_leader_event (twap_entry ''@5'' ''activated'') =
     Inr (Some (JStr ''@5'', ''@5_B_10.0_5_1700000000000'', JStr ''activated''))
   \<and> get_spot_asset_info (venue_info (Px 4)) (JStr ''@5'') =
       Some \<lparr>price = Fin 4, szDecimals = 2, coin = ''@5''\<rparr>
   \<and> twap_id_of_result (running_reply 123) = Inr (Some (JInt 123))
   \<and> handle_twap_event (venue_exchange 123) (venue_info (Px 4)) (twap_entry ''@5'' ''activated'')
        \<lparr>twap_mappings = Map.empty, posted = []\<rparr>
      = Inr \<lparr>twap_mappings = [''@5_B_10.0_5_1700000000000'' \<mapsto> JInt 123],
              posted = [TwapOrder 10005 True ''5'' (JBool False) (JInt 5) (JBool False)]\<rparr>"
proof -
  have id: "twap_id_of_result (running_reply 123) = Inr (Some (JInt 123))"
    by code_simp
  have "handle_twap_event (venue_exchange 123) (venue_info (Px 4)) (twap_entry ''@5'' ''activated'')
          \<lparr>twap_mappings = Map.empty, posted = []\<rparr>
        = Inr \<lparr>twap_mappings =
                  (twap_mappings \<lparr>twap_mappings = Map.empty, posted = []\<rparr>)
                    (''@5_B_10.0_5_1700000000000'' \<mapsto> JInt 123),
                posted = posted \<lparr>twap_mappings = Map.empty, posted = []\<rparr>
                  @ [TwapOrder 10005 True ''5'' (JBool False) (JInt 5) (JBool False)]\<rparr>"
    using activation_places_order_and_maps_key
            [OF read_activated_5 read_state_5 _ resolve_5 _ _ _ _ _ id,
             of "\<lparr>twap_mappings = Map.empty, posted = []\<rparr>" "venue_exchange 123" "''5''"]
    by (simp add: venue_exchange_def wire_examples)
  then show ?thesis
    using read_activated_5 resolve_5 id by simp
qed

text \<open>
  Claim C4. For an activation that reaches sizing (a spot order, whose coin is then a string,
  with a key that is not mapped, for which the resolver returned asset information), the size
  is \<^verbatim>\<open>round(20 / price, szDecimals)\<close>, computed on floats: the price is the coin's
  reference price and is positive, so the division does not raise. A size that is not positive
  abandons the activation with nothing posted and no mapping made, and so does a rounding that
  raises. A positive size goes on to the submission: where the asset index, the wire form of
  the size and the signature are there, the order with that wire form is posted. The price 4
  with two decimals gives the size 5.
\<close>

theorem follower_size_is_rounded_fixed_notional:
  assumes ev: "read_leader_event ev = Inr (Some (JStr c, k, JStr ''activated''))"
      and fields: "read_twap_state ev = Inr (JStr c, side, minutes, randomize, reduce_only)"
      and unmapped: "twap_mappings st k = None"
      and resolved: "get_spot_asset_info info (JStr c) = Some asset_info"
  shows "FIXED_ORDER_VALUE_USDC = 20
       \<and> (\<exists>p q. reference_price info c = Some p \<and> float_gt0 p \<and> py_div 20 p = Inr q
            \<and> (\<forall>e. py_round q (szDecimals asset_info) = Inl e \<longrightarrow>
                  handle_twap_event ex info ev st = Inr st)
            \<and> (\<forall>total_size. py_round q (szDecimals asset_info) = Inr total_size \<longrightarrow>
                  (float_le0 total_size \<longrightarrow>
                     place_follower_twap_order ex info ev (posted st) = (Inl InvalidSize, posted st)
                     \<and> handle_twap_event ex info ev st = Inr st)
                \<and> (\<not> float_le0 total_size \<longrightarrow>
                     (\<forall>i wire u.
                        twap_asset_index info (JStr c) = Inr (Found i)
                        \<and> float_to_wire ex total_size = Inr wire
                        \<and> sign_l1_action ex
                            (TwapOrder (10000 + i) (side = JStr ''B'') wire reduce_only minutes
                               randomize) = Inr u
                        \<longrightarrow> (\<exists>st'. handle_twap_event ex info ev st = Inr st'
                               \<and> posted st' = posted st
                                    @ [TwapOrder (10000 + i) (side = JStr ''B'') wire reduce_only
                                         minutes randomize])))))
       \<and> py_div 20 (Fin 4) = Inr (Fin 5)
       \<and> py_round (Fin 5) 2 = Inr (Fin 5)"
proof -
  let ?d = "szDecimals asset_info"
  have fixed: "FIXED_ORDER_VALUE_USDC = 20"
    by (simp add: FIXED_ORDER_VALUE_USDC_def)
  have ref: "reference_price info c = Some (price asset_info)"
    using resolved by (rule resolver_reads_reference_price)
  have pos: "float_gt0 (price asset_info)"
    using resolved by (rule resolver_price_positive)
  from py_div_positive [OF pos] obtain q where q: "py_div 20 (price asset_info) = Inr q"
    by blast
  have total: "follower_total_size asset_info = py_round q ?d"
    using q by (simp add: follower_total_size_def fixed)
  have spot: "is_spot_order (JStr c) = Inr True"
    using ev by (rule read_leader_event_spot)
  have place: "place_follower_twap_order ex info ev (posted st) =
      (case py_round q ?d of
         Inl e \<Rightarrow> (Inl (PlacingError e), posted st)
       | Inr total_size \<Rightarrow>
           if float_le0 total_size then (Inl InvalidSize, posted st)
           else submit_twap_order ex info (JStr c) (side = JStr ''B'') total_size
                  reduce_only minutes randomize (posted st))"
    using fields spot resolved total by (simp add: place_follower_twap_order_def)
  have raise: "\<forall>e. py_round q ?d = Inl e \<longrightarrow> handle_twap_event ex info ev st = Inr st"
    using place by (simp add: handle_activation [OF ev unmapped])
  have small: "\<forall>total_size. py_round q ?d = Inr total_size \<longrightarrow> float_le0 total_size \<longrightarrow>
        place_follower_twap_order ex info ev (posted st) = (Inl InvalidSize, posted st)
        \<and> handle_twap_event ex info ev st = Inr st"
    using place by (simp add: handle_activation [OF ev unmapped])
  have large: "\<forall>total_size. py_round q ?d = Inr total_size \<longrightarrow> \<not> float_le0 total_size \<longrightarrow>
        (\<forall>i wire u.
           twap_asset_index info (JStr c) = Inr (Found i)
           \<and> float_to_wire ex total_size = Inr wire
           \<and> sign_l1_action ex
               (TwapOrder (10000 + i) (side = JStr ''B'') wire reduce_only minutes randomize) = Inr u
           \<longrightarrow> (\<exists>st'. handle_twap_event ex info ev st = Inr st'
                  \<and> posted st' = posted st
                       @ [TwapOrder (10000 + i) (side = JStr ''B'') wire reduce_only minutes
                            randomize]))"
  proof (intro allI impI, elim conjE)
    fix total_size i wire u
    let ?order = "TwapOrder (10000 + i) (side = JStr ''B'') wire reduce_only minutes randomize"
    assume r: "py_round q ?d = Inr total_size"
      and nz: "\<not> float_le0 total_size"
      and idx: "twap_asset_index info (JStr c) = Inr (Found i)"
      and w: "float_to_wire ex total_size = Inr wire"
      and sg: "sign_l1_action ex ?order = Inr u"
    have "snd (submit_twap_order ex info (JStr c) (side = JStr ''B'') total_size
                 reduce_only minutes randomize (posted st)) = posted st @ [?order]"
      using idx w sg by (rule submit_twap_order_found)
    then obtain res where
      "submit_twap_order ex info (JStr c) (side = JStr ''B'') total_size
         reduce_only minutes randomize (posted st) = (res, posted st @ [?order])"
      by (cases "submit_twap_order ex info (JStr c) (side = JStr ''B'') total_size
                   reduce_only minutes randomize (posted st)") simp
    with place r nz
    have "place_follower_twap_order ex info ev (posted st) = (res, posted st @ [?order])"
      by simp
    then show "\<exists>st'. handle_twap_event ex info ev st = Inr st'
                  \<and> posted st' = posted st @ [?order]"
      by (cases res) (simp_all add: handle_activation [OF ev unmapped])
  qed
  from ref pos q raise small large
  have "\<exists>p q. reference_price info c = Some p \<and> float_gt0 p \<and> py_div 20 p = Inr q
            \<and> (\<forall>e. py_round q ?d = Inl e \<longrightarrow> handle_twap_event ex info ev st = Inr st)
            \<and> (\<forall>total_size. py_round q ?d = Inr total_size \<longrightarrow>
                  (float_le0 total_size \<longrightarrow>
                     place_follower_twap_order ex info ev (posted st) = (Inl InvalidSize, posted st)
                     \<and> handle_twap_event ex info ev st = Inr st)
                \<and> (\<not> float_le0 total_size \<longrightarrow>
                     (\<forall>i wire u.
                        twap_asset_index info (JStr c) = Inr (Found i)
                        \<and> float_to_wire ex total_size = Inr wire
                        \<and> sign_l1_action ex
                            (TwapOrder (10000 + i) (side = JStr ''B'') wire reduce_only minutes
                               randomize) = Inr u
                        \<longrightarrow> (\<exists>st'. handle_twap_event ex info ev st = Inr st'
                               \<and> posted st' = posted st
                                    @ [TwapOrder (10000 + i) (side = JStr ''B'') wire reduce_only
                                         minutes randomize]))))"
    by (intro exI [of _ "price asset_info"] exI [of _ q]) blast
  with fixed size_at_4 show ?thesis
    by (simp only: simp_thms)
qed

theorem follower_size_is_rounded_fixed_notional_witness:
  "reference_price (venue_info (Px 4)) ''@5'' = Some (Fin 4)
   \<and> py_div 20 (Fin 4) = Inr (Fin 5)
   \<and> py_round (Fin 5) 2 = Inr (Fin 5)
   \<and> (\<exists>st'. handle_twap_event (venue_exchange 123) (venue_info (Px 4))
                (twap_entry ''@5'' ''activated'') \<lparr>twap_mappings = Map.empty, posted = []\<rparr>
              = Inr st'
            \<and> posted st' = [TwapOrder 10005 True ''5'' (JBool False) (JInt 5) (JBool False)])
   \<and> reference_price (venue_info (Px 4000)) ''@5'' = Some (Fin 4000)
   \<and> py_div 20 (Fin 4000) = Inr (Fin (5764607523034235 / 1152921504606846976))
   \<and> py_round (Fin (5764607523034235 / 1152921504606846976)) 2 =
        Inr (Fin (5764607523034235 / 576460752303423488))
   \<and> (\<exists>st'. handle_twap_event (venue_exchange 123) (venue_info (Px 4000))
                (twap_entry ''@5'' ''activated'') \<lparr>twap_mappings = Map.empty, posted = []\<rparr>
              = Inr st'
            \<and> posted st' = [TwapOrder 10005 True ''0.01'' (JBool False) (JInt 5) (JBool False)])
   \<and> reference_price (venue_info (Px 1000000)) ''@5'' = Some (Fin 1000000)
   \<and> py_div 20 (Fin 1000000) = Inr (Fin (5902958103587057 / 295147905179352825856))
   \<and> py_round (Fin (5902958103587057 / 295147905179352825856)) 2 = Inr (Fin 0)
   \<and> place_follower_twap_order (venue_exchange 123) (venue_info (Px 1000000))
        (twap_entry ''@5'' ''activated'') [] = (Inl InvalidSize, [])
   \<and> handle_twap_event (venue_exchange 123) (venue_info (Px 1000000))
        (twap_entry ''@5'' ''activated'') \<lparr>twap_mappings = Map.empty, posted = []\<rparr>
      = Inr \<lparr>twap_mappings = Map.empty, posted = []\<rparr>"
proof -
  let ?st = "\<lparr>twap_mappings = Map.empty, posted = []\<rparr>"
  have unmapped: "twap_mappings ?st ''@5_B_10.0_5_1700000000000'' = None"
    by simp
  have plain: "\<exists>st'. handle_twap_event (venue_exchange 123) (venue_info (Px 4))
                (twap_entry ''@5'' ''activated'') ?st = Inr st'
            \<and> posted st' = [TwapOrder 10005 True ''5'' (JBool False) (JInt 5) (JBool False)]"
    using follower_size_is_rounded_fixed_notional
            [OF read_activated_5 read_state_5 unmapped resolve_5, of "venue_exchange 123"]
          reference_price_5(1) size_at_4 index_5 wire_examples(1)
    by (clarsimp simp del: py_div.simps py_round.simps simp: venue_exchange_def)
  have cheap: "\<exists>st'. handle_twap_event (venue_exchange 123) (venue_info (Px 4000))
                (twap_entry ''@5'' ''activated'') ?st = Inr st'
            \<and> posted st' = [TwapOrder 10005 True ''0.01'' (JBool False) (JInt 5) (JBool False)]"
    using follower_size_is_rounded_fixed_notional
            [OF read_activated_5 read_state_5 unmapped resolve_5_at_4000, of "venue_exchange 123"]
          reference_price_5(2) size_at_4000 index_5 wire_examples(2)
    by (clarsimp simp del: py_div.simps py_round.simps simp: venue_exchange_def)
  have dear: "place_follower_twap_order (venue_exchange 123) (venue_info (Px 1000000))
                (twap_entry ''@5'' ''activated'') [] = (Inl InvalidSize, [])
            \<and> handle_twap_event (venue_exchange 123) (venue_info (Px 1000000))
                (twap_entry ''@5'' ''activated'') ?st = Inr ?st"
    using follower_size_is_rounded_fixed_notional
            [OF read_activated_5 read_state_5 unmapped resolve_5_at_1000000, of "venue_exchange 123"]
          reference_price_5(3) size_at_1000000
    by (clarsimp simp del: py_div.simps py_round.simps)
  from plain cheap dear show ?thesis
    by (simp only: reference_price_5 size_at_4 size_at_4000 size_at_1000000 simp_thms)
qed

text \<open>
  Claim C5, as stated, sends an activation whose reference price is 0 down the path of a
  sizing failure. The script never sizes such an order: the resolver itself returns nothing
  for a price that is not positive, and the activation ends where asset information is
  missing, not where the size is invalid.
\<close>

theorem zero_price_is_abandoned_before_sizing:
  "reference_price (venue_info (Px 0)) ''@5'' = Some (Fin 0)
   \<and> get_spot_asset_info (venue_info (Px 0)) (JStr ''@5'') = None
   \<and> place_follower_twap_order (venue_exchange 123) (venue_info (Px 0))
        (twap_entry ''@5'' ''activated'') [] = (Inl NoAssetInfo, [])
   \<and> fst (place_follower_twap_order (venue_exchange 123) (venue_info (Px 0))
        (twap_entry ''@5'' ''activated'') []) \<noteq> Inl InvalidSize"
proof -
  have "get_spot_asset_info (venue_info (Px 0)) (JStr ''@5'') = None"
    by code_simp
  then show ?thesis
    by (simp add: place_zero_price reference_price_zero)
qed

text \<open>
  Claim C5, amended. An Activated event whose key is not mapped and whose reference price is 0
  (or negative, or not a number) is abandoned at resolution: the resolver returns no asset
  information, sizing is not reached, no action is posted and no mapping is made.
\<close>

theorem unusable_price_abandons_at_resolution:
  assumes ev: "read_leader_event ev = Inr (Some (JStr c, k, JStr ''activated''))"
      and unmapped: "twap_mappings st k = None"
      and price: "reference_price info c = Some p"
      and low: "\<not> float_gt0 p"
  shows "get_spot_asset_info info (JStr c) = None
       \<and> place_follower_twap_order ex info ev (posted st) = (Inl NoAssetInfo, posted st)
       \<and> handle_twap_event ex info ev st = Inr st"
proof -
  have none: "get_spot_asset_info info (JStr c) = None"
    using price low by (rule resolver_rejects_low_price)
  with place_spot_event [OF ev, of ex info "posted st"]
  have place: "place_follower_twap_order ex info ev (posted st) = (Inl NoAssetInfo, posted st)"
    by auto
  then have "handle_twap_event ex info ev st = Inr st"
    by (simp add: handle_activation [OF ev unmapped])
  with none place show ?thesis by simp
qed

theorem unusable_price_abandons_at_resolution_witness:
  "reference_price (venue_info (Px 0)) ''@5'' = Some (Fin 0)
   \<and> handle_twap_event (venue_exchange 123) (venue_info (Px 0)) (twap_entry ''@5'' ''activated'')
        \<lparr>twap_mappings = Map.empty, posted = []\<rparr>
      = Inr \<lparr>twap_mappings = Map.empty, posted = []\<rparr>
   \<and> reference_price (venue_info (Px 0)) ''PURR/USDC'' = Some (Fin 0)
   \<and> handle_twap_event (venue_exchange 123) (venue_info (Px 0))
        (twap_entry ''PURR/USDC'' ''activated'') \<lparr>twap_mappings = Map.empty, posted = []\<rparr>
      = Inr \<lparr>twap_mappings = Map.empty, posted = []\<rparr>"
  using unusable_price_abandons_at_resolution
          [OF read_activated_5 _ reference_price_zero(1),
           of "\<lparr>twap_mappings = Map.empty, posted = []\<rparr>" "venue_exchange 123"]
        unusable_price_abandons_at_resolution
          [OF read_activated_pair _ reference_price_zero(2),
           of "\<lparr>twap_mappings = Map.empty, posted = []\<rparr>" "venue_exchange 123"]
        reference_price_zero
  by simp

subsection \<open>Events that are not spot orders\<close>

text \<open>
  Claim C6, as stated, has every event ignored whose coin is neither the prefix \<^verbatim>\<open>@\<close>
  followed by a non-negative integer nor a slash-separated pair name. The script's format
  check is the conversion \<^verbatim>\<open>int\<close>, which reads more than the digits of a non-negative
  integer: the coin \<^verbatim>\<open>@+5\<close> is neither of the two forms, yet it is taken for a spot order
  on the asset 5 and is mirrored, with an order posted on the asset 10005 and a mapping made.
\<close>

theorem signed_index_reference_is_mirrored:
  "\<not> is_index_reference ''@+5''
   \<and> \<not> is_pair_name ''@+5''
   \<and> is_spot_order (JStr ''@+5'') = Inr True
   \<and> handle_twap_event (venue_exchange 123) (venue_info (Px 4)) (twap_entry ''@+5'' ''activated'')
        \<lparr>twap_mappings = Map.empty, posted = []\<rparr>
      = Inr \<lparr>twap_mappings = [''@+5_B_10.0_5_1700000000000'' \<mapsto> JInt 123],
              posted = [TwapOrder 10005 True ''5'' (JBool False) (JInt 5) (JBool False)]\<rparr>"
proof -
  have form: "\<not> is_index_reference ''@+5''" "\<not> is_pair_name ''@+5''"
    "is_spot_order (JStr ''@+5'') = Inr True"
    by code_simp+
  have "place_follower_twap_order (venue_exchange 123) (venue_info (Px 4))
          (twap_entry ''@+5'' ''activated'') []
        = (Inr (JInt 123), [TwapOrder 10005 True ''5'' (JBool False) (JInt 5) (JBool False)])"
    by code_simp
  then have "handle_twap_event (venue_exchange 123) (venue_info (Px 4))
          (twap_entry ''@+5'' ''activated'') \<lparr>twap_mappings = Map.empty, posted = []\<rparr>
      = Inr \<lparr>twap_mappings = [''@+5_B_10.0_5_1700000000000'' \<mapsto> JInt 123],
              posted = [TwapOrder 10005 True ''5'' (JBool False) (JInt 5) (JBool False)]\<rparr>"
    by (simp add: handle_activation [OF read_activated_signed])
  with form show ?thesis
    by simp
qed

text \<open>
  Claim C6, amended. An event is ignored, with no action posted and the mappings left as they
  are, when its coin is a text that is neither the prefix \<^verbatim>\<open>@\<close> followed by what
  \<^verbatim>\<open>int\<close> reads as a non-negative integer (decimal digits, which may have white space
  around them, a sign before them and single underscores between them) nor a pair name (a text
  with a slash that does not start with the prefix). That covers a malformed index reference,
  where \<^verbatim>\<open>int\<close> does not read what follows the prefix or reads a negative number.
\<close>

theorem non_spot_event_is_ignored:
  assumes "py_get ev ''state'' (JObj []) = Inr state"
      and "py_get state ''coin'' (JStr []) = Inr (JStr c)"
      and "\<not> int_index_reference c"
      and "\<not> is_pair_name c"
  shows "handle_twap_event ex info ev st = Inr st
       \<and> handle_leader_twap_events ex info (user_message [ev]) st = (None, st)"
proof -
  have "is_spot_order (JStr c) = Inr False"
    using assms(3,4) by (simp add: is_spot_order_string)
  with assms(1,2) have "read_leader_event ev = Inr None"
    by (simp add: read_leader_event_def)
  then have "handle_twap_event ex info ev st = Inr st"
    by (rule handle_not_spot)
  then show ?thesis
    by (simp add: handle_single_entry)
qed

theorem non_spot_event_is_ignored_witness:
  "\<not> int_index_reference ''BTC'' \<and> \<not> is_pair_name ''BTC''
   \<and> handle_twap_event (venue_exchange 123) (venue_info (Px 4)) (twap_entry ''BTC'' ''activated'')
        \<lparr>twap_mappings = Map.empty, posted = []\<rparr>
      = Inr \<lparr>twap_mappings = Map.empty, posted = []\<rparr>
   \<and> \<not> int_index_reference ''@x/y'' \<and> \<not> is_pair_name ''@x/y''
   \<and> handle_twap_event (venue_exchange 123) (venue_info (Px 4)) (twap_entry ''@x/y'' ''activated'')
        \<lparr>twap_mappings = Map.empty, posted = []\<rparr>
      = Inr \<lparr>twap_mappings = Map.empty, posted = []\<rparr>
   \<and> \<not> int_index_reference ''@-5'' \<and> \<not> is_pair_name ''@-5''
   \<and> handle_twap_event (venue_exchange 123) (venue_info (Px 4)) (twap_entry ''@-5'' ''activated'')
        \<lparr>twap_mappings = Map.empty, posted = []\<rparr>
      = Inr \<lparr>twap_mappings = Map.empty, posted = []\<rparr>"
proof -
  have a: "\<not> int_index_reference ''BTC''" "\<not> is_pair_name ''BTC''"
    by code_simp+
  have b: "\<not> int_index_reference ''@x/y''" "\<not> is_pair_name ''@x/y''"
    by code_simp+
  have n: "\<not> int_index_reference ''@-5''" "\<not> is_pair_name ''@-5''"
    by code_simp+
  have s: "\<And>c. py_get (twap_entry c ''activated'') ''state'' (JObj []) =
             Inr (JObj [(''coin'', JStr c), (''side'', JStr ''B''), (''sz'', JStr ''10.0''),
                        (''minutes'', JInt 5), (''timestamp'', JInt 1700000000000)])"
    by (simp add: twap_entry_def)
  have c: "\<And>c. py_get (JObj [(''coin'', JStr c), (''side'', JStr ''B''), (''sz'', JStr ''10.0''),
                        (''minutes'', JInt 5), (''timestamp'', JInt 1700000000000)])
             ''coin'' (JStr []) = Inr (JStr c)"
    by simp
  from non_spot_event_is_ignored [OF s c a] non_spot_event_is_ignored [OF s c b]
       non_spot_event_is_ignored [OF s c n] a b n
  show ?thesis by simp
qed

subsection \<open>The processor's loop\<close>

text \<open>
  Claim C7, as stated, contains an error to the single event that caused it. The script
  contains it to the frame: the body of the loop over \<^verbatim>\<open>twapHistory\<close> reads the entry
  outside any \<^verbatim>\<open>try\<close>, so an entry on which that reading raises ends the loop, and the
  entries that follow it in the same frame are not handled. Here a frame holds an entry
  without a usable state and, after it, an activation that alone would be mirrored: nothing is
  posted and nothing is mapped.
\<close>

theorem raising_entry_ends_its_frame:
  "handle_leader_twap_events (venue_exchange 123) (venue_info (Px 4))
     (user_message [JObj [(''state'', JNull)], twap_entry ''@5'' ''activated''])
     \<lparr>twap_mappings = Map.empty, posted = []\<rparr>
   = (Some AttributeError, \<lparr>twap_mappings = Map.empty, posted = []\<rparr>)
   \<and> process_message (venue_exchange 123) (venue_info (Px 4))
       (Text (user_message [JObj [(''state'', JNull)], twap_entry ''@5'' ''activated'']))
       \<lparr>twap_mappings = Map.empty, posted = []\<rparr>
     = \<lparr>twap_mappings = Map.empty, posted = []\<rparr>
   \<and> process_message (venue_exchange 123) (venue_info (Px 4))
       (Text (user_message [twap_entry ''@5'' ''activated'']))
       \<lparr>twap_mappings = Map.empty, posted = []\<rparr>
     = \<lparr>twap_mappings = [''@5_B_10.0_5_1700000000000'' \<mapsto> JInt 123],
        posted = [TwapOrder 10005 True ''5'' (JBool False) (JInt 5) (JBool False)]\<rparr>"
proof -
  have "handle_twap_event (venue_exchange 123) (venue_info (Px 4)) (JObj [(''state'', JNull)])
          \<lparr>twap_mappings = Map.empty, posted = []\<rparr> = Inl AttributeError"
    by (simp add: handle_twap_event_def read_stateless)
  then show ?thesis
    by (simp add: process_message_def handle_user_message handle_activated_5)
qed

text \<open>
  Claim C7, amended. An error while one frame is processed stays with that frame. A frame that
  does not decode is dropped with the state unchanged; an exception that leaves
  \<^verbatim>\<open>handle_leader_twap_events\<close> is caught, and the state is the one the handler had
  reached. Within the frame, an entry raises only while it is read, before it has had any
  effect: the entries before it keep their effect and the entries after it are not handled.
  Once an entry has been read, handling it never raises, whatever the resolver and the
  trading client answer, so a failed submission is no exception at all. The loop goes on:
  after any frames, with or without errors, the next frame is processed from the state they
  left, and a malformed frame followed by a frame that decodes gives what that second frame
  alone gives.
\<close>

theorem errors_are_contained_to_their_frame:
  "process_message ex info Malformed st = st
   \<and> (\<forall>e st'. handle_leader_twap_events ex info data st = (Some e, st') \<longrightarrow>
         process_message ex info (Text data) st = st')
   \<and> (\<forall>e. handle_twap_event ex info ev st = Inl e \<longrightarrow> read_leader_event ev = Inl e)
   \<and> (\<forall>r. read_leader_event ev = Inr r \<longrightarrow> (\<exists>st'. handle_twap_event ex info ev st = Inr st'))
   \<and> (\<forall>e st1. handle_twap_events ex info before st = (None, st1)
                \<and> handle_twap_event ex info ev st1 = Inl e \<longrightarrow>
         handle_twap_events ex info (before @ ev # rest) st = (Some e, st1)
         \<and> process_message ex info (Text (user_message (before @ ev # rest))) st = st1)
   \<and> message_processor ex info (pre @ message # queue) st =
       message_processor ex info queue
         (process_message ex info message (message_processor ex info pre st))
   \<and> message_processor ex info [Malformed, Text data] st =
       snd (handle_leader_twap_events ex info data st)"
proof -
  have after_read:
    "\<forall>r. read_leader_event ev = Inr r \<longrightarrow> (\<exists>st'. handle_twap_event ex info ev st = Inr st')"
    by (blast intro: handle_after_read)
  have raised: "\<forall>e. handle_twap_event ex info ev st = Inl e \<longrightarrow> read_leader_event ev = Inl e"
  proof (intro allI impI)
    fix e
    assume h: "handle_twap_event ex info ev st = Inl e"
    show "read_leader_event ev = Inl e"
    proof (cases "read_leader_event ev")
      case (Inl e')
      with h show ?thesis by (simp add: handle_twap_event_def)
    next
      case (Inr r)
      with after_read h show ?thesis by auto
    qed
  qed
  have frame: "\<forall>e st1. handle_twap_events ex info before st = (None, st1)
                \<and> handle_twap_event ex info ev st1 = Inl e \<longrightarrow>
         handle_twap_events ex info (before @ ev # rest) st = (Some e, st1)
         \<and> process_message ex info (Text (user_message (before @ ev # rest))) st = st1"
    by (simp add: process_message_def handle_user_message handle_twap_events_raise)
  from after_read raised frame show ?thesis
    by (simp add: process_message_def message_processor_append)
qed

theorem errors_are_contained_to_their_frame_witness:
  "process_message (venue_exchange 123) (venue_info (Px 4)) Malformed
     \<lparr>twap_mappings = Map.empty, posted = []\<rparr> = \<lparr>twap_mappings = Map.empty, posted = []\<rparr>
   \<and> handle_leader_twap_events (venue_exchange 123) (venue_info (Px 4)) (JArr [])
       \<lparr>twap_mappings = Map.empty, posted = []\<rparr>
       = (Some AttributeError, \<lparr>twap_mappings = Map.empty, posted = []\<rparr>)
   \<and> message_processor (venue_exchange 123) (venue_info (Px 4))
       [Malformed, Text (JArr []), Text (user_message [twap_entry ''@5'' ''activated''])]
       \<lparr>twap_mappings = Map.empty, posted = []\<rparr>
       = \<lparr>twap_mappings = [''@5_B_10.0_5_1700000000000'' \<mapsto> JInt 123],
          posted = [TwapOrder 10005 True ''5'' (JBool False) (JInt 5) (JBool False)]\<rparr>
   \<and> message_processor rejecting_exchange (venue_info (Px 4))
       [Text (user_message [twap_entry ''@5'' ''activated'']),
        Text (user_message [twap_entry ''@5'' ''activated''])]
       \<lparr>twap_mappings = Map.empty, posted = []\<rparr>
       = \<lparr>twap_mappings = Map.empty,
          posted = [TwapOrder 10005 True ''5'' (JBool False) (JInt 5) (JBool False),
                    TwapOrder 10005 True ''5'' (JBool False) (JInt 5) (JBool False)]\<rparr>
   \<and> handle_twap_events (venue_exchange 123) (venue_info (Px 4))
       [twap_entry ''@5'' ''activated'', JObj [(''state'', JNull)],
        twap_entry ''PURR/USDC'' ''activated'']
       \<lparr>twap_mappings = Map.empty, posted = []\<rparr>
       = (Some AttributeError,
          \<lparr>twap_mappings = [''@5_B_10.0_5_1700000000000'' \<mapsto> JInt 123],
           posted = [TwapOrder 10005 True ''5'' (JBool False) (JInt 5) (JBool False)]\<rparr>)
   \<and> message_processor (venue_exchange 123) (venue_info (Px 4))
       [Text (user_message [twap_entry ''@5'' ''activated'', JObj [(''state'', JNull)],
                            twap_entry ''PURR/USDC'' ''activated'']),
        Text (user_message [twap_entry ''@5'' ''terminated''])]
       \<lparr>twap_mappings = Map.empty, posted = []\<rparr>
       = \<lparr>twap_mappings = [''@5_B_10.0_5_1700000000000'' \<mapsto> JInt 123],
          posted = [TwapOrder 10005 True ''5'' (JBool False) (JInt 5) (JBool False)]\<rparr>"
proof -
  let ?ex = "venue_exchange 123" and ?info = "venue_info (Px 4)"
  let ?st = "\<lparr>twap_mappings = Map.empty, posted = []\<rparr>"
  let ?st1 = "\<lparr>twap_mappings = [''@5_B_10.0_5_1700000000000'' \<mapsto> JInt 123],
               posted = [TwapOrder 10005 True ''5'' (JBool False) (JInt 5) (JBool False)]\<rparr>"
  let ?good = "twap_entry ''@5'' ''activated''"
  let ?bad = "JObj [(''state'', JNull)]"
  let ?late = "twap_entry ''PURR/USDC'' ''activated''"
  let ?frame = "Text (user_message [?good])"
  let ?mixed = "Text (user_message [?good, ?bad, ?late])"
  let ?last = "Text (user_message [twap_entry ''@5'' ''terminated''])"
  have raise: "handle_leader_twap_events ?ex ?info (JArr []) ?st = (Some AttributeError, ?st)"
    by (simp add: handle_leader_twap_events_def)
  have pre: "message_processor ?ex ?info [Malformed, Text (JArr [])] ?st = ?st"
    using raise by (simp add: process_message_def)
  have before: "handle_twap_events ?ex ?info [?good] ?st = (None, ?st1)"
    by (simp add: handle_activated_5)
  have bad: "handle_twap_event ?ex ?info ?bad ?st1 = Inl AttributeError"
    by (simp add: handle_twap_event_def read_stateless)
  have known: "handle_twap_event ?ex ?info (twap_entry ''@5'' ''terminated'') ?st1 = Inr ?st1"
    by (simp add: handle_known_key [OF read_terminated_5])
  from errors_are_contained_to_their_frame
         [of ?ex ?info ?st "JArr []" ?bad "[?good]" "[?late]"
             "[Malformed, Text (JArr [])]" ?frame "[]"]
  have "process_message ?ex ?info Malformed ?st = ?st"
    and "message_processor ?ex ?info ([Malformed, Text (JArr [])] @ [?frame]) ?st
         = process_message ?ex ?info ?frame
             (message_processor ?ex ?info [Malformed, Text (JArr [])] ?st)"
    and "handle_twap_events ?ex ?info ([?good] @ ?bad # [?late]) ?st
           = (Some AttributeError, ?st1)
         \<and> process_message ?ex ?info (Text (user_message ([?good] @ ?bad # [?late]))) ?st
           = ?st1"
    using before bad by simp_all
  moreover
  from errors_are_contained_to_their_frame
         [of rejecting_exchange ?info ?st "JArr []" ?good "[]" "[]" "[?frame]" ?frame "[]"]
  have "message_processor rejecting_exchange ?info ([?frame] @ [?frame]) ?st
         = process_message rejecting_exchange ?info ?frame
             (message_processor rejecting_exchange ?info [?frame] ?st)"
    by simp
  ultimately show ?thesis
    using raise pre known
    by (simp add: process_message_def handle_user_message handle_activated_5 handle_rejected_5)
qed

text \<open>
  Claim C9. A Terminated event whose key is not mapped is a no-op: it posts no action and
  leaves the mappings as they are. Handling the same event once more, as an entry or as a
  frame of its own, is a no-op again.
\<close>

theorem terminated_event_for_unmapped_key_is_a_noop:
  assumes "read_leader_event ev = Inr (Some (cf, k, JStr ''terminated''))"
      and "twap_mappings st k = None"
  shows "handle_twap_event ex info ev st = Inr st
       \<and> bind_exn (handle_twap_event ex info ev st) (handle_twap_event ex info ev) = Inr st
       \<and> message_processor ex info [Text (user_message [ev]), Text (user_message [ev])] st = st"
proof -
  have "handle_twap_event ex info ev st = Inr st"
    using assms by (simp add: handle_terminal_unknown_key)
  then show ?thesis
    by (simp add: process_message_def handle_user_message)
qed

theorem terminated_event_for_unmapped_key_is_a_noop_witness:
  "read_leader_event (twap_entry ''@5'' ''terminated'') =
     Inr (Some (JStr ''@5'', ''@5_B_10.0_5_1700000000000'', JStr ''terminated''))
   \<and> handle_twap_event (venue_exchange 123) (venue_info (Px 4)) (twap_entry ''@5'' ''terminated'')
        \<lparr>twap_mappings = Map.empty, posted = []\<rparr>
      = Inr \<lparr>twap_mappings = Map.empty, posted = []\<rparr>
   \<and> message_processor (venue_exchange 123) (venue_info (Px 4))
        [Text (user_message [twap_entry ''@5'' ''terminated'']),
         Text (user_message [twap_entry ''@5'' ''terminated''])]
        \<lparr>twap_mappings = Map.empty, posted = []\<rparr>
      = \<lparr>twap_mappings = Map.empty, posted = []\<rparr>"
  using terminated_event_for_unmapped_key_is_a_noop
          [OF read_terminated_5, of "\<lparr>twap_mappings = Map.empty, posted = []\<rparr>"
              "venue_exchange 123" "venue_info (Px 4)"]
        read_terminated_5
  by simp

text \<open>
  Claim C10. A key \<open>k\<close> that is mapped to the order id \<open>v\<close> is never bound to another
  id: after \<^verbatim>\<open>handle_leader_twap_events\<close> has handled any frame, and after the
  processor has worked through any queue of frames, \<open>k\<close> is mapped to \<open>v\<close> or not
  mapped at all.
\<close>

theorem mapped_key_is_never_rebound:
  assumes "twap_mappings st k = Some v"
  shows "(twap_mappings (snd (handle_leader_twap_events ex info data st)) k = Some v
          \<or> twap_mappings (snd (handle_leader_twap_events ex info data st)) k = None)
       \<and> (twap_mappings (message_processor ex info queue st) k = Some v
          \<or> twap_mappings (message_processor ex info queue st) k = None)"
  using assms by (simp add: handle_leader_twap_events_keeps message_processor_keeps)

theorem mapped_key_is_never_rebound_witness:
  "twap_mappings \<lparr>twap_mappings = [''k'' \<mapsto> JInt 77], posted = []\<rparr> ''k'' = Some (JInt 77)
   \<and> (twap_mappings
         (snd (handle_leader_twap_events (venue_exchange 123) (venue_info (Px 4))
                 (user_message [twap_entry ''@5'' ''activated''])
                 \<lparr>twap_mappings = [''k'' \<mapsto> JInt 77], posted = []\<rparr>)) ''k'' = Some (JInt 77)
       \<or> twap_mappings
         (snd (handle_leader_twap_events (venue_exchange 123) (venue_info (Px 4))
                 (user_message [twap_entry ''@5'' ''activated''])
                 \<lparr>twap_mappings = [''k'' \<mapsto> JInt 77], posted = []\<rparr>)) ''k'' = None)
   \<and> (twap_mappings
         (message_processor (venue_exchange 123) (venue_info (Px 4))
            [Text (user_message [twap_entry ''@5'' ''activated'']), Malformed,
             Text (user_message [twap_entry ''@5'' ''terminated''])]
            \<lparr>twap_mappings = [''k'' \<mapsto> JInt 77], posted = []\<rparr>) ''k'' = Some (JInt 77)
       \<or> twap_mappings
         (message_processor (venue_exchange 123) (venue_info (Px 4))
            [Text (user_message [twap_entry ''@5'' ''activated'']), Malformed,
             Text (user_message [twap_entry ''@5'' ''terminated''])]
            \<lparr>twap_mappings = [''k'' \<mapsto> JInt 77], posted = []\<rparr>) ''k'' = None)"
  using mapped_key_is_never_rebound
          [of "\<lparr>twap_mappings = [''k'' \<mapsto> JInt 77], posted = []\<rparr>" "''k''" "JInt 77"
              "venue_exchange 123" "venue_info (Px 4)"
              "user_message [twap_entry ''@5'' ''activated'']"
              "[Text (user_message [twap_entry ''@5'' ''activated'']), Malformed,
                Text (user_message [twap_entry ''@5'' ''terminated''])]"]
  by simp

end

